theory Spec2Isabelle
  imports Main
begin

section \<open>Solidity 0.8 arithmetic and results\<close>

text \<open>
  Both contracts are compiled with \<open>pragma solidity ^0.8.20\<close>: every \<open>uint256\<close>
  operation is checked, and an overflow, an underflow or a division by zero aborts the
  call with a panic. A \<open>uint256\<close> is a natural number, and each operation returns
  either the value or the error. A failed \<open>require\<close> is \<open>Revert\<close> with its message.
\<close>

type_synonym address = nat

datatype error = Revert string | Panic nat

definition MAX_UINT256 :: nat where
  "MAX_UINT256 = 2 ^ 256 - 1"

definition bnd :: "error + 'a \<Rightarrow> ('a \<Rightarrow> error + 'b) \<Rightarrow> error + 'b" where
  "bnd m f = (case m of Inl e \<Rightarrow> Inl e | Inr x \<Rightarrow> f x)"

definition checked_add :: "nat \<Rightarrow> nat \<Rightarrow> error + nat" where
  "checked_add a b = (if a + b \<le> MAX_UINT256 then Inr (a + b) else Inl (Panic 17))"

definition checked_sub :: "nat \<Rightarrow> nat \<Rightarrow> error + nat" where
  "checked_sub a b = (if b \<le> a then Inr (a - b) else Inl (Panic 17))"

definition checked_mul :: "nat \<Rightarrow> nat \<Rightarrow> error + nat" where
  "checked_mul a b = (if a * b \<le> MAX_UINT256 then Inr (a * b) else Inl (Panic 17))"

definition checked_div :: "nat \<Rightarrow> nat \<Rightarrow> error + nat" where
  "checked_div a b = (if b = 0 then Inl (Panic 18) else Inr (a div b))"

section \<open>The asset token\<close>

text \<open>
  Modelled from the spec: MockUSDC.sol, the asset token both contracts call, is not among
  the sources. The spec's AssetTransferPort has \<open>pull(from, amount)\<close> and
  \<open>push(to, amount)\<close>, "each failing explicitly (not silently) if the underlying
  balance/allowance is insufficient"; the README calls the token a "standard ERC20
  interface". The three operations below are the ERC20 ones the contracts invoke, written
  as the share token of MockMorphoVault writes its own \<open>transfer\<close>, \<open>transferFrom\<close>
  and \<open>approve\<close>. The first argument after the state is the caller.
\<close>

record ERC20 =
  tokenBalance :: "address \<Rightarrow> nat"
  tokenAllowance :: "address \<Rightarrow> address \<Rightarrow> nat"

definition erc20_transfer :: "ERC20 \<Rightarrow> address \<Rightarrow> address \<Rightarrow> nat \<Rightarrow> error + ERC20" where
  "erc20_transfer tk caller to amount =
     (if \<not> amount \<le> tokenBalance tk caller then Inl (Revert ''Insufficient balance'')
      else
        let bal1 = (tokenBalance tk)(caller := tokenBalance tk caller - amount) in
        bnd (checked_add (bal1 to) amount) (\<lambda>credited.
        Inr (tk\<lparr>tokenBalance := bal1(to := credited)\<rparr>)))"

definition erc20_transferFrom ::
  "ERC20 \<Rightarrow> address \<Rightarrow> address \<Rightarrow> address \<Rightarrow> nat \<Rightarrow> error + ERC20" where
  "erc20_transferFrom tk caller from to amount =
     (if \<not> amount \<le> tokenAllowance tk from caller then Inl (Revert ''Insufficient allowance'')
      else if \<not> amount \<le> tokenBalance tk from then Inl (Revert ''Insufficient balance'')
      else
        let alw = (tokenAllowance tk)
                    (from := (tokenAllowance tk from)(caller := tokenAllowance tk from caller - amount));
            bal1 = (tokenBalance tk)(from := tokenBalance tk from - amount) in
        bnd (checked_add (bal1 to) amount) (\<lambda>credited.
        Inr (tk\<lparr>tokenBalance := bal1(to := credited), tokenAllowance := alw\<rparr>)))"

definition erc20_approve :: "ERC20 \<Rightarrow> address \<Rightarrow> address \<Rightarrow> nat \<Rightarrow> error + ERC20" where
  "erc20_approve tk caller spender amount =
     Inr (tk\<lparr>tokenAllowance := (tokenAllowance tk)
               (caller := (tokenAllowance tk caller)(spender := amount))\<rparr>)"

section \<open>MockMorphoVault\<close>

text \<open>
  The storage of the contract. \<open>cachedTotalAssets\<close> is the private \<open>_totalAssets\<close> (the
  cached total), \<open>vaultAddress\<close> is \<open>address(this)\<close>. The immutable \<open>asset\<close> is the one
  token above. Events of the vault are not modelled.
\<close>

record MockMorphoVault =
  vaultAddress :: address
  totalSupply :: nat
  cachedTotalAssets :: nat
  lastYieldUpdate :: nat
  initialized :: bool
  balanceOf :: "address \<Rightarrow> nat"
  allowance :: "address \<Rightarrow> address \<Rightarrow> nat"

definition ANNUAL_YIELD_BPS :: nat where
  "ANNUAL_YIELD_BPS = 500"

definition DEAD_ADDRESS :: address where
  "DEAD_ADDRESS = 57005"

definition DEAD_SHARES :: nat where
  "DEAD_SHARES = 1000000000"

text \<open>\<open>365 days * 10000\<close>, a compile-time constant; a day is 86400 seconds.\<close>

definition YEAR_TIMES_BPS :: nat where
  "YEAR_TIMES_BPS = 365 * 86400 * 10000"

text \<open>The state of a freshly constructed vault, deployed at time \<open>t\<close>.\<close>

definition vault_constructor :: "address \<Rightarrow> nat \<Rightarrow> MockMorphoVault" where
  "vault_constructor self t =
     \<lparr>vaultAddress = self, totalSupply = 0, cachedTotalAssets = 0, lastYieldUpdate = t,
      initialized = False, balanceOf = (\<lambda>_. 0), allowance = (\<lambda>_ _. 0)\<rparr>"

text \<open>\<open>now\<close> is \<open>block.timestamp\<close> throughout.\<close>

definition totalAssets :: "MockMorphoVault \<Rightarrow> nat \<Rightarrow> error + nat" where
  "totalAssets v now =
     (if cachedTotalAssets v = 0 then Inr 0
      else
        bnd (checked_sub now (lastYieldUpdate v)) (\<lambda>timeElapsed.
        if timeElapsed = 0 then Inr (cachedTotalAssets v)
        else
          bnd (checked_mul (cachedTotalAssets v) ANNUAL_YIELD_BPS) (\<lambda>p1.
          bnd (checked_mul p1 timeElapsed) (\<lambda>p2.
          bnd (checked_div p2 YEAR_TIMES_BPS) (\<lambda>yield.
          checked_add (cachedTotalAssets v) yield)))))"

definition accrueYield :: "MockMorphoVault \<Rightarrow> nat \<Rightarrow> error + MockMorphoVault" where
  "accrueYield v now =
     bnd (totalAssets v now) (\<lambda>newTotalAssets.
     Inr (v\<lparr>cachedTotalAssets := newTotalAssets, lastYieldUpdate := now\<rparr>))"

definition convertToShares :: "MockMorphoVault \<Rightarrow> nat \<Rightarrow> nat \<Rightarrow> error + nat" where
  "convertToShares v now assets =
     (let supply = totalSupply v in
      bnd (totalAssets v now) (\<lambda>total.
      if supply = 0 \<or> total = 0 then Inr assets
      else bnd (checked_mul assets supply) (\<lambda>p. checked_div p total)))"

definition convertToAssets :: "MockMorphoVault \<Rightarrow> nat \<Rightarrow> nat \<Rightarrow> error + nat" where
  "convertToAssets v now sh =
     (let supply = totalSupply v in
      if supply = 0 then Inr sh
      else
        bnd (totalAssets v now) (\<lambda>total.
        bnd (checked_mul sh total) (\<lambda>p. checked_div p supply)))"

definition initializeVault :: "MockMorphoVault \<Rightarrow> nat \<Rightarrow> error + MockMorphoVault" where
  "initializeVault v firstDeposit =
     (if \<not> DEAD_SHARES \<le> firstDeposit then Inl (Revert ''First deposit too small'')
      else Inr (v\<lparr>totalSupply := DEAD_SHARES,
                  balanceOf := (balanceOf v)(DEAD_ADDRESS := DEAD_SHARES),
                  cachedTotalAssets := DEAD_SHARES\<rparr>))"

text \<open>
  The vault's \<open>_transferFrom\<close> and \<open>_transfer\<close>: a low-level call to the token whose
  failure becomes the vault's own revert.
\<close>

definition vault_transferFrom ::
  "MockMorphoVault \<Rightarrow> ERC20 \<Rightarrow> address \<Rightarrow> address \<Rightarrow> nat \<Rightarrow> error + ERC20" where
  "vault_transferFrom v tk from to amount =
     (case erc20_transferFrom tk (vaultAddress v) from to amount of
        Inl _ \<Rightarrow> Inl (Revert ''TransferFrom failed'')
      | Inr tk' \<Rightarrow> Inr tk')"

definition vault_transfer ::
  "MockMorphoVault \<Rightarrow> ERC20 \<Rightarrow> address \<Rightarrow> nat \<Rightarrow> error + ERC20" where
  "vault_transfer v tk to amount =
     (case erc20_transfer tk (vaultAddress v) to amount of
        Inl _ \<Rightarrow> Inl (Revert ''Transfer failed'')
      | Inr tk' \<Rightarrow> Inr tk')"

text \<open>
  The state-changing operations take the vault, the token, \<open>msg.sender\<close> and
  \<open>block.timestamp\<close>, and return the result with both new states. An error stands for
  the revert of the whole call.
\<close>

definition vault_deposit ::
  "MockMorphoVault \<Rightarrow> ERC20 \<Rightarrow> address \<Rightarrow> nat \<Rightarrow> nat \<Rightarrow> address
     \<Rightarrow> error + (nat \<times> MockMorphoVault \<times> ERC20)" where
  "vault_deposit v tk sender now assets receiver =
     (if \<not> 0 < assets then Inl (Revert ''Cannot deposit 0'')
      else if \<not> receiver \<noteq> 0 then Inl (Revert ''Invalid receiver'')
      else
        bnd (accrueYield v now) (\<lambda>v1.
        bnd (if \<not> initialized v1
             then bnd (initializeVault v1 assets) (\<lambda>vi. Inr (vi\<lparr>initialized := True\<rparr>))
             else Inr v1) (\<lambda>v2.
        bnd (convertToShares v2 now assets) (\<lambda>sh.
        if \<not> 0 < sh then Inl (Revert ''Zero shares'')
        else
          bnd (vault_transferFrom v2 tk sender (vaultAddress v2) assets) (\<lambda>tk'.
          bnd (checked_add (totalSupply v2) sh) (\<lambda>supply'.
          bnd (checked_add (balanceOf v2 receiver) sh) (\<lambda>bal'.
          bnd (checked_add (cachedTotalAssets v2) assets) (\<lambda>assets'.
          Inr (sh, v2\<lparr>totalSupply := supply',
                       balanceOf := (balanceOf v2)(receiver := bal'),
                       cachedTotalAssets := assets'\<rparr>, tk')))))))))"

text \<open>
  The allowance check shared by \<open>withdraw\<close> and \<open>redeem\<close>: when the caller is not the
  owner the allowance must cover the shares and is decremented.
\<close>

definition spendAllowance ::
  "MockMorphoVault \<Rightarrow> address \<Rightarrow> address \<Rightarrow> nat \<Rightarrow> error + MockMorphoVault" where
  "spendAllowance v sender ownr sh =
     (if sender \<noteq> ownr then
        (let allowed = allowance v ownr sender in
         if \<not> sh \<le> allowed then Inl (Revert ''Insufficient allowance'')
         else Inr (v\<lparr>allowance := (allowance v)
                      (ownr := (allowance v ownr)(sender := allowed - sh))\<rparr>))
      else Inr v)"

text \<open>
  \<open>balanceOf[owner] -= shares; totalSupply -= shares; _totalAssets -= assets\<close>, then the
  transfer of the assets to the receiver: the common tail of \<open>withdraw\<close> and \<open>redeem\<close>.
\<close>

definition burnAndPay ::
  "MockMorphoVault \<Rightarrow> ERC20 \<Rightarrow> address \<Rightarrow> address \<Rightarrow> nat \<Rightarrow> nat
     \<Rightarrow> error + (MockMorphoVault \<times> ERC20)" where
  "burnAndPay v tk ownr receiver sh assets =
     bnd (checked_sub (balanceOf v ownr) sh) (\<lambda>bal'.
     bnd (checked_sub (totalSupply v) sh) (\<lambda>supply'.
     bnd (checked_sub (cachedTotalAssets v) assets) (\<lambda>assets'.
     let v' = v\<lparr>balanceOf := (balanceOf v)(ownr := bal'),
                totalSupply := supply', cachedTotalAssets := assets'\<rparr> in
     bnd (vault_transfer v' tk receiver assets) (\<lambda>tk'.
     Inr (v', tk')))))"

definition vault_withdraw ::
  "MockMorphoVault \<Rightarrow> ERC20 \<Rightarrow> address \<Rightarrow> nat \<Rightarrow> nat \<Rightarrow> address \<Rightarrow> address
     \<Rightarrow> error + (nat \<times> MockMorphoVault \<times> ERC20)" where
  "vault_withdraw v tk sender now assets receiver ownr =
     (if \<not> 0 < assets then Inl (Revert ''Cannot withdraw 0'')
      else if \<not> receiver \<noteq> 0 then Inl (Revert ''Invalid receiver'')
      else
        bnd (accrueYield v now) (\<lambda>v1.
        bnd (convertToShares v1 now assets) (\<lambda>sh.
        if \<not> 0 < sh then Inl (Revert ''Zero shares'')
        else
          bnd (spendAllowance v1 sender ownr sh) (\<lambda>v2.
          if \<not> sh \<le> balanceOf v2 ownr then Inl (Revert ''Insufficient balance'')
          else
            bnd (burnAndPay v2 tk ownr receiver sh assets) (\<lambda>(v3, tk').
            Inr (sh, v3, tk'))))))"

definition vault_redeem ::
  "MockMorphoVault \<Rightarrow> ERC20 \<Rightarrow> address \<Rightarrow> nat \<Rightarrow> nat \<Rightarrow> address \<Rightarrow> address
     \<Rightarrow> error + (nat \<times> MockMorphoVault \<times> ERC20)" where
  "vault_redeem v tk sender now sh receiver ownr =
     (if \<not> 0 < sh then Inl (Revert ''Cannot redeem 0'')
      else if \<not> receiver \<noteq> 0 then Inl (Revert ''Invalid receiver'')
      else
        bnd (spendAllowance v sender ownr sh) (\<lambda>v1.
        if \<not> sh \<le> balanceOf v1 ownr then Inl (Revert ''Insufficient balance'')
        else
          bnd (accrueYield v1 now) (\<lambda>v2.
          bnd (convertToAssets v2 now sh) (\<lambda>assets.
          if \<not> 0 < assets then Inl (Revert ''Zero assets'')
          else
            bnd (burnAndPay v2 tk ownr receiver sh assets) (\<lambda>(v3, tk').
            Inr (assets, v3, tk'))))))"

definition previewMint :: "MockMorphoVault \<Rightarrow> nat \<Rightarrow> nat \<Rightarrow> error + nat" where
  "previewMint v now sh =
     (let supply = totalSupply v in
      if supply = 0 then Inr sh
      else
        bnd (totalAssets v now) (\<lambda>total.
        bnd (checked_mul sh total) (\<lambda>p.
        bnd (checked_add p supply) (\<lambda>q.
        bnd (checked_sub q 1) (\<lambda>r.
        checked_div r supply)))))"

definition previewWithdraw :: "MockMorphoVault \<Rightarrow> nat \<Rightarrow> nat \<Rightarrow> error + nat" where
  "previewWithdraw v now assets =
     (let supply = totalSupply v in
      bnd (totalAssets v now) (\<lambda>total.
      if supply = 0 \<or> total = 0 then Inr assets
      else
        bnd (checked_mul assets supply) (\<lambda>p.
        bnd (checked_add p total) (\<lambda>q.
        bnd (checked_sub q 1) (\<lambda>r.
        checked_div r total)))))"

section \<open>JubyVault\<close>

record UserDeposit =
  shares :: nat
  principal :: nat
  goalDate :: nat
  depositDate :: nat
  exists :: bool

text \<open>The value of a mapping slot that was never written, or was deleted.\<close>

definition noDeposit :: UserDeposit where
  "noDeposit = \<lparr>shares = 0, principal = 0, goalDate = 0, depositDate = 0, exists = False\<rparr>"

text \<open>
  The storage of the contract; \<open>jubyAddress\<close> is \<open>address(this)\<close>. The immutables
  \<open>asset\<close> and \<open>morphoVault\<close> are the token and the vault of the world below.
\<close>

record JubyVault =
  jubyAddress :: address
  jubyTreasury :: address
  owner :: address
  deposits :: "address \<Rightarrow> UserDeposit"

text \<open>
  What JubyVault does that the outside can observe, in program order: the calls it makes
  to the vault and to the token, each with the \<open>deposits\<close> mapping as it stands in storage
  when the call is issued (what a call back into JubyVault would read), and the events it
  emits. The trace is ghost state: no operation reads it.
\<close>

datatype ext_call =
    ConvertToAssetsStaticCall nat
  | MorphoDepositCall nat
  | MorphoRedeemCall nat
  | TransferCall address nat
  | TransferFromCall address address nat
  | ApproveCall address nat

datatype event =
    Deposited address nat nat nat nat
  | Withdrawn address nat nat nat nat bool
  | PenaltyCollected address nat
  | TreasuryUpdated address address

datatype action =
    External ext_call "address \<Rightarrow> UserDeposit"
  | Emitted event

record world =
  ledger :: JubyVault
  morpho :: MockMorphoVault
  usdc :: ERC20
  trace :: "action list"

definition record_call :: "ext_call \<Rightarrow> world \<Rightarrow> world" where
  "record_call c w = w\<lparr>trace := trace w @ [External c (deposits (ledger w))]\<rparr>"

definition emit :: "event \<Rightarrow> world \<Rightarrow> world" where
  "emit e w = w\<lparr>trace := trace w @ [Emitted e]\<rparr>"

text \<open>
  The internal helpers. Each is a low-level call followed by \<open>require(success, ...)\<close>:
  whatever the callee's error, the caller reverts with its own message.
\<close>

definition juby_convertToAssets :: "world \<Rightarrow> nat \<Rightarrow> nat \<Rightarrow> error + nat" where
  "juby_convertToAssets w now sh =
     (case convertToAssets (morpho w) now sh of
        Inl _ \<Rightarrow> Inl (Revert ''convertToAssets failed'')
      | Inr assets \<Rightarrow> Inr assets)"

definition depositToMorpho :: "world \<Rightarrow> nat \<Rightarrow> nat \<Rightarrow> error + (nat \<times> world)" where
  "depositToMorpho w now assets =
     (let w1 = record_call (MorphoDepositCall assets) w in
      case vault_deposit (morpho w1) (usdc w1) (jubyAddress (ledger w1)) now assets
             (jubyAddress (ledger w1)) of
        Inl _ \<Rightarrow> Inl (Revert ''Morpho deposit failed'')
      | Inr (sh, v', tk') \<Rightarrow> Inr (sh, w1\<lparr>morpho := v', usdc := tk'\<rparr>))"

definition redeemFromMorpho :: "world \<Rightarrow> nat \<Rightarrow> nat \<Rightarrow> error + (nat \<times> world)" where
  "redeemFromMorpho w now sh =
     (let w1 = record_call (MorphoRedeemCall sh) w in
      case vault_redeem (morpho w1) (usdc w1) (jubyAddress (ledger w1)) now sh
             (jubyAddress (ledger w1)) (jubyAddress (ledger w1)) of
        Inl _ \<Rightarrow> Inl (Revert ''Morpho redeem failed'')
      | Inr (assets, v', tk') \<Rightarrow> Inr (assets, w1\<lparr>morpho := v', usdc := tk'\<rparr>))"

definition juby_transfer :: "world \<Rightarrow> address \<Rightarrow> nat \<Rightarrow> error + world" where
  "juby_transfer w to amount =
     (let w1 = record_call (TransferCall to amount) w in
      case erc20_transfer (usdc w1) (jubyAddress (ledger w1)) to amount of
        Inl _ \<Rightarrow> Inl (Revert ''Transfer failed'')
      | Inr tk' \<Rightarrow> Inr (w1\<lparr>usdc := tk'\<rparr>))"

definition juby_transferFrom :: "world \<Rightarrow> address \<Rightarrow> address \<Rightarrow> nat \<Rightarrow> error + world" where
  "juby_transferFrom w from to amount =
     (let w1 = record_call (TransferFromCall from to amount) w in
      case erc20_transferFrom (usdc w1) (jubyAddress (ledger w1)) from to amount of
        Inl _ \<Rightarrow> Inl (Revert ''TransferFrom failed'')
      | Inr tk' \<Rightarrow> Inr (w1\<lparr>usdc := tk'\<rparr>))"

definition juby_approve :: "world \<Rightarrow> address \<Rightarrow> nat \<Rightarrow> error + world" where
  "juby_approve w spender amount =
     (let w1 = record_call (ApproveCall spender amount) w in
      case erc20_approve (usdc w1) (jubyAddress (ledger w1)) spender amount of
        Inl _ \<Rightarrow> Inl (Revert ''Approve failed'')
      | Inr tk' \<Rightarrow> Inr (w1\<lparr>usdc := tk'\<rparr>))"

definition set_deposit :: "address \<Rightarrow> UserDeposit \<Rightarrow> world \<Rightarrow> world" where
  "set_deposit user d w = w\<lparr>ledger := (ledger w)\<lparr>deposits := (deposits (ledger w))(user := d)\<rparr>\<rparr>"

definition juby_deposit :: "world \<Rightarrow> address \<Rightarrow> nat \<Rightarrow> nat \<Rightarrow> nat \<Rightarrow> error + (nat \<times> world)" where
  "juby_deposit w sender now amount goal =
     (if \<not> 0 < amount then Inl (Revert ''Cannot deposit 0'')
      else if \<not> now < goal then Inl (Revert ''Goal date must be in future'')
      else if exists (deposits (ledger w) sender)
        then Inl (Revert ''Existing deposit found. Withdraw first.'')
      else
        bnd (juby_transferFrom w sender (jubyAddress (ledger w)) amount) (\<lambda>w1.
        bnd (juby_approve w1 (vaultAddress (morpho w1)) amount) (\<lambda>w2.
        bnd (depositToMorpho w2 now amount) (\<lambda>(sh, w3).
        let w4 = set_deposit sender
                   \<lparr>shares = sh, principal = amount, goalDate = goal,
                    depositDate = now, exists = True\<rparr> w3 in
        Inr (sh, emit (Deposited sender amount sh goal now) w4)))))"

definition juby_withdraw :: "world \<Rightarrow> address \<Rightarrow> nat \<Rightarrow> error + (nat \<times> world)" where
  "juby_withdraw w sender now =
     (let userDeposit = deposits (ledger w) sender in
      if \<not> exists userDeposit then Inl (Revert ''No deposit found'')
      else
        bnd (juby_convertToAssets w now (shares userDeposit)) (\<lambda>currentValue.
        let w0 = record_call (ConvertToAssetsStaticCall (shares userDeposit)) w;
            yield = (if principal userDeposit < currentValue
                     then currentValue - principal userDeposit else 0);
            isEarly = (now < goalDate userDeposit) in
        bnd (if isEarly \<and> 0 < yield
             then (let penalty = yield div 2 in
                   bnd (checked_sub yield penalty) (\<lambda>kept.
                   bnd (checked_add (principal userDeposit) kept) (\<lambda>userReceives.
                   Inr (penalty, userReceives))))
             else Inr (0, currentValue)) (\<lambda>(penalty, userReceives).
        let w1 = set_deposit sender noDeposit w0 in
        bnd (redeemFromMorpho w1 now (shares userDeposit)) (\<lambda>(assetsReceived, w2).
        bnd (checked_sub currentValue 10) (\<lambda>lowest.
        if \<not> lowest \<le> assetsReceived then Inl (Revert ''Slippage too high'')
        else
          bnd (if 0 < penalty
               then bnd (juby_transfer w2 (jubyTreasury (ledger w2)) penalty) (\<lambda>w'.
                    Inr (emit (PenaltyCollected sender penalty) w'))
               else Inr w2) (\<lambda>w3.
          bnd (juby_transfer w3 sender userReceives) (\<lambda>w4.
          Inr (userReceives,
               emit (Withdrawn sender (principal userDeposit) yield penalty userReceives isEarly)
                 w4))))))))"

definition getUserInfo ::
  "world \<Rightarrow> nat \<Rightarrow> address \<Rightarrow> error + (nat \<times> nat \<times> nat \<times> nat \<times> bool \<times> nat)" where
  "getUserInfo w now user =
     (let userDeposit = deposits (ledger w) user in
      if \<not> exists userDeposit then Inr (0, 0, 0, 0, False, 0)
      else
        bnd (juby_convertToAssets w now (shares userDeposit)) (\<lambda>currentValue.
        let yield = (if principal userDeposit < currentValue
                     then currentValue - principal userDeposit else 0);
            isEarly = (now < goalDate userDeposit);
            potentialPenalty = (if isEarly \<and> 0 < yield then yield div 2 else 0) in
        Inr (principal userDeposit, currentValue, yield, goalDate userDeposit, isEarly,
             potentialPenalty)))"

definition previewWithdrawal :: "world \<Rightarrow> nat \<Rightarrow> address \<Rightarrow> error + (nat \<times> nat)" where
  "previewWithdrawal w now user =
     (let userDeposit = deposits (ledger w) user in
      if \<not> exists userDeposit then Inr (0, 0)
      else
        bnd (juby_convertToAssets w now (shares userDeposit)) (\<lambda>currentValue.
        let yield = (if principal userDeposit < currentValue
                     then currentValue - principal userDeposit else 0);
            isEarly = (now < goalDate userDeposit) in
        if isEarly \<and> 0 < yield
        then (let penaltyAmount = yield div 2 in
              bnd (checked_sub yield penaltyAmount) (\<lambda>kept.
              bnd (checked_add (principal userDeposit) kept) (\<lambda>userWillReceive.
              Inr (userWillReceive, penaltyAmount))))
        else Inr (currentValue, 0)))"

definition updateTreasury :: "world \<Rightarrow> address \<Rightarrow> address \<Rightarrow> error + (unit \<times> world)" where
  "updateTreasury w sender newTreasury =
     (if \<not> sender = owner (ledger w) then Inl (Revert ''Only owner'')
      else if \<not> newTreasury \<noteq> 0 then Inl (Revert ''Invalid treasury'')
      else
        let oldTreasury = jubyTreasury (ledger w);
            w1 = w\<lparr>ledger := (ledger w)\<lparr>jubyTreasury := newTreasury\<rparr>\<rparr> in
        Inr ((), emit (TreasuryUpdated oldTreasury newTreasury) w1))"

definition transferOwnership :: "world \<Rightarrow> address \<Rightarrow> address \<Rightarrow> error + (unit \<times> world)" where
  "transferOwnership w sender newOwner =
     (if \<not> sender = owner (ledger w) then Inl (Revert ''Only owner'')
      else if \<not> newOwner \<noteq> 0 then Inl (Revert ''Invalid owner'')
      else Inr ((), w\<lparr>ledger := (ledger w)\<lparr>owner := newOwner\<rparr>\<rparr>))"

text \<open>
  A transaction: the call either completes, and its state is the new state, or reverts,
  and every effect is rolled back.
\<close>

definition transact :: "(world \<Rightarrow> error + ('a \<times> world)) \<Rightarrow> world \<Rightarrow> (error + 'a) \<times> world" where
  "transact call w =
     (case call w of Inl e \<Rightarrow> (Inl e, w) | Inr (r, w') \<Rightarrow> (Inr r, w'))"

section \<open>Reading the trace\<close>

text \<open>
  \<open>convertToAssets\<close> is reached by \<open>staticcall\<close>, which cannot change state; every
  other call JubyVault makes is a state-changing \<open>call\<close>.
\<close>

fun changes_state :: "ext_call \<Rightarrow> bool" where
  "changes_state (ConvertToAssetsStaticCall _) = False"
| "changes_state _ = True"

text \<open>The external calls of a trace, and the token transfers among them, in order.\<close>

fun calls_of :: "action list \<Rightarrow> ext_call list" where
  "calls_of [] = []"
| "calls_of (External c _ # xs) = c # calls_of xs"
| "calls_of (Emitted _ # xs) = calls_of xs"

fun transfers_of :: "action list \<Rightarrow> (address \<times> nat) list" where
  "transfers_of [] = []"
| "transfers_of (External (TransferCall to amount) _ # xs) = (to, amount) # transfers_of xs"
| "transfers_of (_ # xs) = transfers_of xs"

section \<open>The penalty policy in the words of the specification\<close>

text \<open>
  \<open>yield = max(currentValue - principal, 0)\<close>; if \<open>isEarly && yield > 0\<close> then
  \<open>penalty = yield / 2\<close> and \<open>userReceives = principal + (yield - penalty)\<close>, otherwise
  \<open>penalty = 0\<close> and \<open>userReceives = currentValue\<close>. These follow the text of the
  specification, to be compared with what \<open>withdraw\<close> and \<open>previewWithdrawal\<close> compute.
\<close>

definition spec_yield :: "nat \<Rightarrow> nat \<Rightarrow> nat" where
  "spec_yield currentValue p = nat (max (int currentValue - int p) 0)"

definition spec_penalty :: "bool \<Rightarrow> nat \<Rightarrow> nat" where
  "spec_penalty isEarly y = (if isEarly \<and> 0 < y then y div 2 else 0)"

definition spec_userReceives :: "bool \<Rightarrow> nat \<Rightarrow> nat \<Rightarrow> nat \<Rightarrow> nat" where
  "spec_userReceives isEarly p currentValue y =
     (if isEarly \<and> 0 < y then p + (y - spec_penalty isEarly y) else currentValue)"

section \<open>The stages of \<open>withdraw\<close>\<close>

text \<open>
  \<open>withdraw\<close> cut into three stages, for reasoning about it: the computation of the
  penalty and the payout (which \<open>previewWithdrawal\<close> repeats), the redemption with its
  slippage check, and the two transfers. Lemma \<open>juby_withdraw_staged\<close> shows that
  \<open>juby_withdraw\<close> is their composition.
\<close>

definition payout_split :: "UserDeposit \<Rightarrow> nat \<Rightarrow> nat \<Rightarrow> error + (nat \<times> nat)" where
  "payout_split d currentValue now =
     (let yield = (if principal d < currentValue then currentValue - principal d else 0);
          isEarly = (now < goalDate d) in
      if isEarly \<and> 0 < yield
      then (let penalty = yield div 2 in
            bnd (checked_sub yield penalty) (\<lambda>kept.
            bnd (checked_add (principal d) kept) (\<lambda>userReceives.
            Inr (penalty, userReceives))))
      else Inr (0, currentValue))"

definition pay_out ::
  "world \<Rightarrow> address \<Rightarrow> event \<Rightarrow> nat \<Rightarrow> nat \<Rightarrow> error + (nat \<times> world)" where
  "pay_out w2 sender closing penalty userReceives =
     bnd (if 0 < penalty
          then bnd (juby_transfer w2 (jubyTreasury (ledger w2)) penalty) (\<lambda>w'.
               Inr (emit (PenaltyCollected sender penalty) w'))
          else Inr w2) (\<lambda>w3.
     bnd (juby_transfer w3 sender userReceives) (\<lambda>w4.
     Inr (userReceives, emit closing w4)))"

definition settle ::
  "world \<Rightarrow> address \<Rightarrow> nat \<Rightarrow> nat \<Rightarrow> nat \<Rightarrow> event \<Rightarrow> nat \<Rightarrow> nat
     \<Rightarrow> error + (nat \<times> world)" where
  "settle w1 sender now sh currentValue closing penalty userReceives =
     bnd (redeemFromMorpho w1 now sh) (\<lambda>(assetsReceived, w2).
     bnd (checked_sub currentValue 10) (\<lambda>lowest.
     if \<not> lowest \<le> assetsReceived then Inl (Revert ''Slippage too high'')
     else pay_out w2 sender closing penalty userReceives))"

text \<open>What a successful \<open>withdraw\<close> appends to the trace.\<close>

definition payout_calls ::
  "(address \<Rightarrow> UserDeposit) \<Rightarrow> address \<Rightarrow> address \<Rightarrow> event \<Rightarrow> nat \<Rightarrow> nat \<Rightarrow> action list" where
  "payout_calls snap treasury sender closing pen pay =
     (if 0 < pen
      then [External (TransferCall treasury pen) snap, Emitted (PenaltyCollected sender pen)]
      else []) @
     [External (TransferCall sender pay) snap, Emitted closing]"

definition withdraw_calls :: "world \<Rightarrow> address \<Rightarrow> nat \<Rightarrow> nat \<Rightarrow> nat \<Rightarrow> nat \<Rightarrow> action list" where
  "withdraw_calls w sender now cv pen pay =
     (let d = deposits (ledger w) sender;
          closed = (deposits (ledger w))(sender := noDeposit) in
      External (ConvertToAssetsStaticCall (shares d)) (deposits (ledger w)) #
      External (MorphoRedeemCall (shares d)) closed #
      payout_calls closed (jubyTreasury (ledger w)) sender
        (Withdrawn sender (principal d) (spec_yield cv (principal d)) pen pay (now < goalDate d))
        pen pay)"

section \<open>Concrete states\<close>

text \<open>
  A vault deployed at address 4004 at time 0, and a token in which account 7 holds
  1000 USDC (six decimals) and has approved the vault for it.
\<close>

definition fresh_vault :: MockMorphoVault where
  "fresh_vault = vault_constructor 4004 0"

definition funded_token :: ERC20 where
  "funded_token =
     \<lparr>tokenBalance = (\<lambda>_. 0)(7 := 1000000000),
      tokenAllowance = (\<lambda>_ _. 0)(7 := (\<lambda>_. 0)(4004 := 1000000000))\<rparr>"

text \<open>
  The vault and the token after \<open>deposit(1000000000, 7)\<close> by account 7 at time 0 (lemma
  \<open>seeded_vault_reached\<close> below).
\<close>

definition seeded_vault :: MockMorphoVault where
  "seeded_vault =
     \<lparr>vaultAddress = 4004, totalSupply = 2000000000, cachedTotalAssets = 2000000000,
      lastYieldUpdate = 0, initialized = True,
      balanceOf = (\<lambda>_. 0)(DEAD_ADDRESS := 1000000000, 7 := 1000000000),
      allowance = (\<lambda>_ _. 0)\<rparr>"

definition seeded_token :: ERC20 where
  "seeded_token =
     \<lparr>tokenBalance = (\<lambda>_. 0)(7 := 0, 4004 := 1000000000),
      tokenAllowance = (\<lambda>_ _. 0)(7 := (\<lambda>_. 0)(4004 := 0))\<rparr>"

text \<open>
  A deployment: JubyVault at address 3003 with treasury 2002 and owner 5005, over the fresh
  vault. Account 1001 holds 1000 USDC and account 1002 holds 5 units, both approved for
  JubyVault; the vault has been sent 1000 units, from which it can pay simulated yield.
\<close>

definition deployed_world :: world where
  "deployed_world =
     \<lparr>ledger = \<lparr>jubyAddress = 3003, jubyTreasury = 2002, owner = 5005,
                deposits = (\<lambda>_. noDeposit)\<rparr>,
      morpho = fresh_vault,
      usdc = \<lparr>tokenBalance = (\<lambda>_. 0)(1001 := 1000000000, 1002 := 5, 4004 := 1000),
              tokenAllowance = (\<lambda>_ _. 0)(1001 := (\<lambda>_. 0)(3003 := 1000000000),
                                           1002 := (\<lambda>_. 0)(3003 := 5))\<rparr>,
      trace = []\<rparr>"

text \<open>The state a call leaves behind: the new state, or the old one after a revert.\<close>

definition world_after :: "error + ('a \<times> world) \<Rightarrow> world \<Rightarrow> world" where
  "world_after res w = (case res of Inl _ \<Rightarrow> w | Inr (_, w') \<Rightarrow> w')"

text \<open>
  Account 1001 has deposited 1000 USDC at time 0 with the given goal date; then account
  1002 has deposited 5 units.
\<close>

definition saving_world :: "nat \<Rightarrow> world" where
  "saving_world goal =
     world_after (juby_deposit deployed_world 1001 0 1000000000 goal) deployed_world"

definition small_world :: world where
  "small_world = world_after (juby_deposit (saving_world 1000) 1002 0 5 1000) (saving_world 1000)"

section \<open>Results and checked arithmetic\<close>

lemma bnd_Inr [simp]: "bnd (Inr x) f = f x"
  by (simp add: bnd_def)

lemma bnd_Inl [simp]: "bnd (Inl e) f = Inl e"
  by (simp add: bnd_def)

lemma bnd_eq_Inr: "bnd m f = Inr y \<longleftrightarrow> (\<exists>x. m = Inr x \<and> f x = Inr y)"
  by (cases m) simp_all

lemma checked_add_eq_Inr: "checked_add a b = Inr c \<longleftrightarrow> c = a + b \<and> a + b \<le> MAX_UINT256"
  by (auto simp: checked_add_def)

lemma checked_sub_eq_Inr: "checked_sub a b = Inr c \<longleftrightarrow> c = a - b \<and> b \<le> a"
  by (auto simp: checked_sub_def)

lemma checked_mul_eq_Inr: "checked_mul a b = Inr c \<longleftrightarrow> c = a * b \<and> a * b \<le> MAX_UINT256"
  by (auto simp: checked_mul_def)

lemma checked_div_eq_Inr: "checked_div a b = Inr c \<longleftrightarrow> c = a div b \<and> b \<noteq> 0"
  by (auto simp: checked_div_def)

lemmas checked_eq_Inr =
  checked_add_eq_Inr checked_sub_eq_Inr checked_mul_eq_Inr checked_div_eq_Inr

text \<open>The unfoldings that let the simplifier run the contracts on concrete states.\<close>

lemmas arith_defs =
  checked_add_def checked_sub_def checked_mul_def checked_div_def MAX_UINT256_def

lemmas vault_defs =
  totalAssets_def accrueYield_def convertToShares_def convertToAssets_def
  initializeVault_def vault_transferFrom_def vault_transfer_def vault_deposit_def
  spendAllowance_def burnAndPay_def vault_withdraw_def vault_redeem_def previewMint_def
  previewWithdraw_def ANNUAL_YIELD_BPS_def DEAD_ADDRESS_def DEAD_SHARES_def
  YEAR_TIMES_BPS_def vault_constructor_def

lemmas token_defs = erc20_transfer_def erc20_transferFrom_def erc20_approve_def

section \<open>The vault: total assets and conversions\<close>

lemma YEAR_TIMES_BPS_nonzero: "YEAR_TIMES_BPS \<noteq> 0"
  by (simp add: YEAR_TIMES_BPS_def)

lemma factor_fits:
  fixes a d :: nat
  assumes "a * d \<le> MAX_UINT256" and "0 < d"
  shows "a \<le> MAX_UINT256"
proof -
  have "a \<le> a * d" using assms(2) by (cases d) simp_all
  then show ?thesis using assms(1) by (rule order_trans)
qed

text \<open>When \<open>totalAssets()\<close> returns, and what.\<close>

lemma totalAssets_eq_Inr:
  "totalAssets v now = Inr r \<longleftrightarrow>
     (if cachedTotalAssets v = 0 then r = 0
      else lastYieldUpdate v \<le> now \<and>
        r = cachedTotalAssets v +
            cachedTotalAssets v * ANNUAL_YIELD_BPS * (now - lastYieldUpdate v)
              div YEAR_TIMES_BPS \<and>
        (lastYieldUpdate v < now \<longrightarrow>
           cachedTotalAssets v * ANNUAL_YIELD_BPS * (now - lastYieldUpdate v) \<le> MAX_UINT256 \<and>
           cachedTotalAssets v +
             cachedTotalAssets v * ANNUAL_YIELD_BPS * (now - lastYieldUpdate v)
               div YEAR_TIMES_BPS \<le> MAX_UINT256))"
  by (auto simp: totalAssets_def bnd_eq_Inr checked_eq_Inr YEAR_TIMES_BPS_nonzero
      intro: factor_fits)

lemma totalAssets_mono:
  assumes "lastYieldUpdate v \<le> t1" "t1 \<le> t2" "totalAssets v t2 = Inr x2"
  shows "\<exists>x1. totalAssets v t1 = Inr x1 \<and> x1 \<le> x2"
proof (cases "cachedTotalAssets v = 0")
  case True
  then show ?thesis using assms by (simp add: totalAssets_eq_Inr)
next
  case False
  let ?c = "cachedTotalAssets v * ANNUAL_YIELD_BPS"
  let ?y1 = "?c * (t1 - lastYieldUpdate v) div YEAR_TIMES_BPS"
  let ?y2 = "?c * (t2 - lastYieldUpdate v) div YEAR_TIMES_BPS"
  have d: "t1 - lastYieldUpdate v \<le> t2 - lastYieldUpdate v" using assms by simp
  have m: "?c * (t1 - lastYieldUpdate v) \<le> ?c * (t2 - lastYieldUpdate v)"
    by (rule mult_le_mono2) (rule d)
  have a: "?y1 \<le> ?y2"
    by (rule div_le_mono) (rule m)
  have x2: "x2 = cachedTotalAssets v + ?y2"
    using assms(3) False by (simp add: totalAssets_eq_Inr)
  have fit: "lastYieldUpdate v < t2 \<longrightarrow>
           ?c * (t2 - lastYieldUpdate v) \<le> MAX_UINT256 \<and>
           cachedTotalAssets v + ?y2 \<le> MAX_UINT256"
    using assms(3) False by (simp add: totalAssets_eq_Inr)
  have fit1: "?c * (t1 - lastYieldUpdate v) \<le> MAX_UINT256 \<and>
           cachedTotalAssets v + ?y1 \<le> MAX_UINT256" if "lastYieldUpdate v < t1"
  proof -
    from that assms(2) have "lastYieldUpdate v < t2" by simp
    with fit have f: "?c * (t2 - lastYieldUpdate v) \<le> MAX_UINT256"
      and g: "cachedTotalAssets v + ?y2 \<le> MAX_UINT256" by simp_all
    have "cachedTotalAssets v + ?y1 \<le> cachedTotalAssets v + ?y2"
      using a by simp
    then show ?thesis using order_trans [OF m f] g by simp
  qed
  have "totalAssets v t1 = Inr (cachedTotalAssets v + ?y1)"
    using False assms(1) fit1 by (simp add: totalAssets_eq_Inr)
  then show ?thesis using a x2 by simp
qed

text \<open>
  C7: \<open>totalAssets()\<close> returns \<open>cachedTotalAssets\<close> plus the floor of
  \<open>cachedTotalAssets * annualYieldRateBps * elapsedSeconds / (secondsPerYear * 10000)\<close>,
  the elapsed seconds running from \<open>lastYieldUpdate\<close> to now, and returns 0 when
  \<open>cachedTotalAssets\<close> is 0. It is a view: the function maps the state and the time to
  a value and produces no new state. Whatever it returns is that sum; and it does return
  whenever the clock has not gone back and the product and the sum fit in a \<open>uint256\<close>
  (the arithmetic is checked, so otherwise the call panics).
\<close>

theorem totalAssets_formula:
  "YEAR_TIMES_BPS = 31536000 * 10000 \<and>
   (cachedTotalAssets v = 0 \<longrightarrow> totalAssets v now = Inr 0) \<and>
   (\<forall>r. totalAssets v now = Inr r \<longrightarrow>
      r = cachedTotalAssets v +
          cachedTotalAssets v * ANNUAL_YIELD_BPS * (now - lastYieldUpdate v)
            div YEAR_TIMES_BPS) \<and>
   (lastYieldUpdate v \<le> now \<and>
    cachedTotalAssets v * ANNUAL_YIELD_BPS * (now - lastYieldUpdate v) \<le> MAX_UINT256 \<and>
    cachedTotalAssets v +
      cachedTotalAssets v * ANNUAL_YIELD_BPS * (now - lastYieldUpdate v)
        div YEAR_TIMES_BPS \<le> MAX_UINT256 \<longrightarrow>
    totalAssets v now =
      Inr (cachedTotalAssets v +
           cachedTotalAssets v * ANNUAL_YIELD_BPS * (now - lastYieldUpdate v)
             div YEAR_TIMES_BPS))"
proof (intro conjI allI impI)
  show "YEAR_TIMES_BPS = 31536000 * 10000"
    by (simp add: YEAR_TIMES_BPS_def)
next
  assume "cachedTotalAssets v = 0"
  then show "totalAssets v now = Inr 0"
    by (simp add: totalAssets_eq_Inr)
next
  fix r
  assume "totalAssets v now = Inr r"
  then show "r = cachedTotalAssets v +
      cachedTotalAssets v * ANNUAL_YIELD_BPS * (now - lastYieldUpdate v) div YEAR_TIMES_BPS"
    by (simp add: totalAssets_eq_Inr split: if_splits)
next
  assume "lastYieldUpdate v \<le> now \<and>
    cachedTotalAssets v * ANNUAL_YIELD_BPS * (now - lastYieldUpdate v) \<le> MAX_UINT256 \<and>
    cachedTotalAssets v +
      cachedTotalAssets v * ANNUAL_YIELD_BPS * (now - lastYieldUpdate v)
        div YEAR_TIMES_BPS \<le> MAX_UINT256"
  then show "totalAssets v now =
      Inr (cachedTotalAssets v +
           cachedTotalAssets v * ANNUAL_YIELD_BPS * (now - lastYieldUpdate v)
             div YEAR_TIMES_BPS)"
    by (simp add: totalAssets_eq_Inr)
qed

text \<open>
  One year after the first deposit the seeded pool of 2000 USDC has grown by 5%; the
  empty pool of the fresh vault stays at 0.
\<close>

theorem totalAssets_formula_witness:
  "cachedTotalAssets seeded_vault = 2000000000 \<and>
   lastYieldUpdate seeded_vault \<le> 31536000 \<and>
   totalAssets seeded_vault 31536000 = Inr 2100000000 \<and>
   cachedTotalAssets fresh_vault = 0 \<and>
   totalAssets fresh_vault 31536000 = Inr 0"
proof -
  have empty: "cachedTotalAssets fresh_vault = 0"
    by (simp add: fresh_vault_def vault_constructor_def)
  from totalAssets_formula [of fresh_vault 31536000] empty
  have zero: "totalAssets fresh_vault 31536000 = Inr 0" by blast
  let ?formula = "cachedTotalAssets seeded_vault +
      cachedTotalAssets seeded_vault * ANNUAL_YIELD_BPS * (31536000 - lastYieldUpdate seeded_vault)
        div YEAR_TIMES_BPS"
  have val: "?formula = 2100000000"
    by (simp add: seeded_vault_def ANNUAL_YIELD_BPS_def YEAR_TIMES_BPS_def)
  have pre: "lastYieldUpdate seeded_vault \<le> 31536000 \<and>
    cachedTotalAssets seeded_vault * ANNUAL_YIELD_BPS * (31536000 - lastYieldUpdate seeded_vault)
      \<le> MAX_UINT256 \<and> ?formula \<le> MAX_UINT256"
    unfolding val by (simp add: seeded_vault_def ANNUAL_YIELD_BPS_def MAX_UINT256_def)
  from totalAssets_formula [of seeded_vault 31536000] pre
  have "totalAssets seeded_vault 31536000 = Inr ?formula" by blast
  then have "totalAssets seeded_vault 31536000 = Inr 2100000000"
    unfolding val .
  then show ?thesis using empty zero by (simp add: seeded_vault_def)
qed

text \<open>
  C4: with a nonzero share supply, converting an asset amount to shares and the shares
  back to assets never yields more than the starting amount. Whenever
  \<open>convertToShares\<close> returns, \<open>convertToAssets\<close> of its result returns too.
\<close>

theorem convert_roundtrip:
  assumes "0 < totalSupply v" and "convertToShares v now a = Inr sh"
  shows "\<exists>a'. convertToAssets v now sh = Inr a' \<and> a' \<le> a"
proof -
  from assms obtain t where t: "totalAssets v now = Inr t"
    by (auto simp: convertToShares_def bnd_eq_Inr)
  show ?thesis
  proof (cases "t = 0")
    case True
    then show ?thesis using assms t
      by (simp add: convertToShares_def convertToAssets_def checked_mul_def checked_div_def)
  next
    case False
    from assms t False have fit: "a * totalSupply v \<le> MAX_UINT256"
      and sh: "sh = a * totalSupply v div t"
      by (auto simp: convertToShares_def bnd_eq_Inr checked_eq_Inr)
    have le: "sh * t \<le> a * totalSupply v"
      unfolding sh by (rule div_times_less_eq_dividend)
    have fit': "sh * t \<le> MAX_UINT256" by (rule order_trans [OF le fit])
    have "convertToAssets v now sh = Inr (sh * t div totalSupply v)"
      using assms(1) t fit' by (simp add: convertToAssets_def checked_mul_def checked_div_def)
    moreover have "sh * t div totalSupply v \<le> a"
    proof -
      have "sh * t div totalSupply v \<le> a * totalSupply v div totalSupply v"
        by (rule div_le_mono) (rule le)
      then show ?thesis using assms(1) by simp
    qed
    ultimately show ?thesis by simp
  qed
qed

text \<open>A year after the first deposit 3 asset units buy 2 shares, which are worth 2.\<close>

theorem convert_roundtrip_witness:
  "0 < totalSupply seeded_vault \<and>
   convertToShares seeded_vault 31536000 3 = Inr 2 \<and>
   (\<exists>a'. convertToAssets seeded_vault 31536000 2 = Inr a' \<and> a' \<le> 3)"
proof -
  have h1: "0 < totalSupply seeded_vault"
    by (simp add: seeded_vault_def)
  have h2: "convertToShares seeded_vault 31536000 3 = Inr 2"
    by (simp add: seeded_vault_def arith_defs vault_defs)
  from convert_roundtrip [OF h1 h2] h1 h2 show ?thesis by simp
qed

text \<open>
  C6, as stated, fails: the value of one share is a floor and need not move. The seeded
  vault has a positive rate, a nonzero supply and a nonzero pool, and was accrued at time
  0; one share is worth 1 asset unit at time 0, one second later and still a full year
  later.
\<close>

theorem share_price_not_strictly_increasing:
  "0 < ANNUAL_YIELD_BPS \<and> 0 < totalSupply seeded_vault \<and>
   0 < cachedTotalAssets seeded_vault \<and> lastYieldUpdate seeded_vault = 0 \<and>
   convertToAssets seeded_vault 0 1 = Inr 1 \<and>
   convertToAssets seeded_vault 1 1 = Inr 1 \<and>
   convertToAssets seeded_vault 31536000 1 = Inr 1"
  by (simp add: seeded_vault_def arith_defs vault_defs)

text \<open>
  C6, amended: between two instants at or after the last accrual, the asset value of one
  share (of any number of shares) never decreases; when the later conversion returns, so
  does the earlier one.
\<close>

theorem share_price_nondecreasing:
  assumes "lastYieldUpdate v \<le> t1" and "t1 \<le> t2" and "convertToAssets v t2 sh = Inr a2"
  shows "\<exists>a1. convertToAssets v t1 sh = Inr a1 \<and> a1 \<le> a2"
proof (cases "totalSupply v = 0")
  case True
  then show ?thesis using assms by (simp add: convertToAssets_def)
next
  case False
  from assms(3) False obtain x2 where
    x2: "totalAssets v t2 = Inr x2" and f2: "sh * x2 \<le> MAX_UINT256"
    and a2: "a2 = sh * x2 div totalSupply v"
    by (auto simp: convertToAssets_def bnd_eq_Inr checked_eq_Inr)
  from totalAssets_mono [OF assms(1,2) x2] obtain x1 where
    x1: "totalAssets v t1 = Inr x1" and le: "x1 \<le> x2" by blast
  have m: "sh * x1 \<le> sh * x2" by (rule mult_le_mono2) (rule le)
  have f1: "sh * x1 \<le> MAX_UINT256" by (rule order_trans [OF m f2])
  have "convertToAssets v t1 sh = Inr (sh * x1 div totalSupply v)"
    using False x1 f1 by (simp add: convertToAssets_def checked_mul_def checked_div_def)
  moreover have "sh * x1 div totalSupply v \<le> a2"
    unfolding a2 by (rule div_le_mono) (rule m)
  ultimately show ?thesis by simp
qed

theorem share_price_nondecreasing_witness:
  "lastYieldUpdate seeded_vault \<le> 1 \<and> (1::nat) \<le> 31536000 \<and>
   convertToAssets seeded_vault 31536000 1 = Inr 1 \<and>
   (\<exists>a1. convertToAssets seeded_vault 1 1 = Inr a1 \<and> a1 \<le> 1)"
proof -
  have h1: "lastYieldUpdate seeded_vault \<le> 1"
    by (simp add: seeded_vault_def)
  have h2: "(1::nat) \<le> 31536000" by simp
  have h3: "convertToAssets seeded_vault 31536000 1 = Inr 1"
    by (simp add: seeded_vault_def arith_defs vault_defs)
  from share_price_nondecreasing [OF h1 h2 h3] h1 h3 show ?thesis by simp
qed

section \<open>The vault: first deposit and rounding of the operations\<close>

lemma seeded_vault_reached:
  "vault_deposit fresh_vault funded_token 7 0 1000000000 7 =
     Inr (1000000000, seeded_vault, seeded_token)"
  by (simp add: fresh_vault_def funded_token_def seeded_vault_def seeded_token_def
      arith_defs vault_defs token_defs)

text \<open>
  The part of C3 that holds: a first deposit below \<open>DEAD_SHARES\<close> into a vault that is not
  initialized fails, and one at or above it leaves \<open>DEAD_SHARES\<close> shares at the dead
  address (when the receiver is another address).
\<close>

lemma first_deposit_below_floor:
  assumes "\<not> initialized v" and "assets < DEAD_SHARES"
  shows "\<exists>e. vault_deposit v tk sender now assets receiver = Inl e"
proof (cases "accrueYield v now")
  case (Inl e)
  then show ?thesis by (simp add: vault_deposit_def)
next
  case (Inr v1)
  then have "\<not> initialized v1"
    using assms(1) by (auto simp: accrueYield_def bnd_eq_Inr)
  then show ?thesis using Inr assms(2)
    by (simp add: vault_deposit_def initializeVault_def)
qed

lemma first_deposit_dead_shares:
  assumes "\<not> initialized v" and "receiver \<noteq> DEAD_ADDRESS"
    and "vault_deposit v tk sender now assets receiver = Inr (sh, v', tk')"
  shows "DEAD_SHARES \<le> assets \<and> balanceOf v' DEAD_ADDRESS = DEAD_SHARES \<and> initialized v'"
proof -
  from assms(3) obtain v1 where v1: "accrueYield v now = Inr v1"
    by (auto simp: vault_deposit_def bnd_eq_Inr split: if_splits)
  then have ni: "\<not> initialized v1"
    using assms(1) by (auto simp: accrueYield_def bnd_eq_Inr)
  from assms(3) v1 ni assms(2) show ?thesis
    by (auto simp: vault_deposit_def initializeVault_def bnd_eq_Inr split: if_splits)
qed

text \<open>
  C3 at a concrete first deposit. Account 7 deposits 1000000000 asset units into the fresh
  vault: the vault pulls 1000000000 units (all it then holds) and mints 1000000000 shares
  to the dead address and another 1000000000 to the receiver, and it records
  2000000000 as total supply and as cached total assets. The backing of the dead shares is
  added on top of the deposit, not carved out of it.
\<close>

theorem first_deposit_counts_dead_shares_twice:
  "(case vault_deposit fresh_vault funded_token 7 0 1000000000 7 of
      Inl _ \<Rightarrow> False
    | Inr (sh, v', tk') \<Rightarrow>
        sh = 1000000000 \<and>
        balanceOf v' DEAD_ADDRESS = 1000000000 \<and> balanceOf v' 7 = 1000000000 \<and>
        totalSupply v' = 2000000000 \<and> cachedTotalAssets v' = 2000000000 \<and>
        tokenBalance funded_token 7 - tokenBalance tk' 7 = 1000000000 \<and>
        tokenBalance tk' (vaultAddress v') = 1000000000)"
  by (simp add: fresh_vault_def funded_token_def arith_defs vault_defs token_defs)

text \<open>
  The parts of C5 that hold. With a nonzero supply, \<open>previewMint\<close> returns the least
  asset amount whose product with the supply covers \<open>shares * totalAssets\<close>, the quotient
  rounded up; with a nonzero pool as well, \<open>previewWithdraw\<close> returns the quotient
  \<open>assets * totalSupply / totalAssets\<close> rounded up, and \<open>convertToShares\<close>, which
  \<open>deposit\<close> uses (as \<open>redeem\<close> uses \<open>convertToAssets\<close>), the same quotient rounded
  down. The shares \<open>withdraw\<close> burns are those of \<open>convertToShares\<close>.
\<close>

lemma ceil_div_bounds:
  fixes x d :: nat
  assumes "0 < d"
  shows "x \<le> (x + d - 1) div d * d \<and> (x + d - 1) div d * d < x + d"
proof -
  have "(x + d - 1) div d * d + (x + d - 1) mod d = x + d - 1"
    by (rule div_mult_mod_eq)
  moreover have "(x + d - 1) mod d < d"
    using assms by simp
  ultimately show ?thesis using assms by linarith
qed

lemma previewWithdraw_rounds_up:
  assumes "0 < totalSupply v" and "totalAssets v now = Inr pool" and "0 < pool"
    and "previewWithdraw v now assets = Inr sh"
  shows "assets * totalSupply v \<le> sh * pool \<and> sh * pool < assets * totalSupply v + pool"
proof -
  from assms have "sh = (assets * totalSupply v + pool - 1) div pool"
    by (auto simp: previewWithdraw_def Let_def bnd_eq_Inr checked_eq_Inr)
  with ceil_div_bounds [OF assms(3), of "assets * totalSupply v"] show ?thesis by simp
qed

lemma previewMint_rounds_up:
  assumes "0 < totalSupply v" and "totalAssets v now = Inr pool"
    and "previewMint v now sh = Inr assets"
  shows "sh * pool \<le> assets * totalSupply v \<and>
         assets * totalSupply v < sh * pool + totalSupply v"
proof -
  from assms have "assets = (sh * pool + totalSupply v - 1) div totalSupply v"
    by (auto simp: previewMint_def Let_def bnd_eq_Inr checked_eq_Inr)
  with ceil_div_bounds [OF assms(1), of "sh * pool"] show ?thesis by simp
qed

lemma convertToShares_rounds_down:
  assumes "0 < totalSupply v" and "totalAssets v now = Inr pool" and "0 < pool"
    and "convertToShares v now assets = Inr sh"
  shows "sh * pool \<le> assets * totalSupply v \<and> assets * totalSupply v < sh * pool + pool"
proof -
  from assms have sh: "sh = assets * totalSupply v div pool"
    by (auto simp: convertToShares_def Let_def bnd_eq_Inr checked_eq_Inr)
  have "assets * totalSupply v div pool * pool + assets * totalSupply v mod pool
      = assets * totalSupply v"
    by (rule div_mult_mod_eq)
  moreover have "assets * totalSupply v mod pool < pool"
    using assms(3) by simp
  ultimately show ?thesis unfolding sh by linarith
qed

lemma vault_withdraw_shares:
  assumes "vault_withdraw v tk sender now assets receiver ownr = Inr (sh, v', tk')"
  shows "\<exists>v1. accrueYield v now = Inr v1 \<and> convertToShares v1 now assets = Inr sh"
  using assms
  by (auto simp: vault_withdraw_def bnd_eq_Inr split: if_splits)

text \<open>
  C5 at a concrete withdrawal. A year after the first deposit the pool holds 2100000000
  for 2000000000 shares. \<open>previewWithdraw(3)\<close> is 3, the quotient rounded up, and
  \<open>previewMint(3)\<close> is 4; but \<open>withdraw(3, 7, 7)\<close> by account 7 burns
  \<open>convertToShares(3) = 2\<close> shares, the quotient rounded down, and pays 3 asset units.
\<close>

theorem withdraw_charges_rounded_down_shares:
  "totalAssets seeded_vault 31536000 = Inr 2100000000 \<and>
   previewWithdraw seeded_vault 31536000 3 = Inr 3 \<and>
   previewMint seeded_vault 31536000 3 = Inr 4 \<and>
   (case vault_withdraw seeded_vault seeded_token 7 31536000 3 7 7 of
      Inl _ \<Rightarrow> False
    | Inr (sh, v', tk') \<Rightarrow>
        sh = 2 \<and> balanceOf seeded_vault 7 - balanceOf v' 7 = 2 \<and>
        totalSupply seeded_vault - totalSupply v' = 2 \<and>
        tokenBalance tk' 7 - tokenBalance seeded_token 7 = 3)"
  by (simp add: seeded_vault_def seeded_token_def arith_defs vault_defs token_defs)

section \<open>JubyVault: the shape of a successful withdrawal\<close>

lemmas juby_defs =
  juby_convertToAssets_def depositToMorpho_def redeemFromMorpho_def juby_transfer_def
  juby_transferFrom_def juby_approve_def set_deposit_def juby_deposit_def juby_withdraw_def
  getUserInfo_def previewWithdrawal_def record_call_def emit_def noDeposit_def
  world_after_def

lemma juby_convertToAssets_Inr:
  "juby_convertToAssets w now sh = Inr a \<longleftrightarrow> convertToAssets (morpho w) now sh = Inr a"
  by (simp add: juby_convertToAssets_def split: sum.splits)

lemma redeemFromMorpho_Inr:
  "redeemFromMorpho w now sh = Inr (a, w2) \<longleftrightarrow>
     (\<exists>v' tk'. vault_redeem (morpho w) (usdc w) (jubyAddress (ledger w)) now sh
                 (jubyAddress (ledger w)) (jubyAddress (ledger w)) = Inr (a, v', tk') \<and>
        w2 = (record_call (MorphoRedeemCall sh) w)\<lparr>morpho := v', usdc := tk'\<rparr>)"
  by (auto simp: redeemFromMorpho_def Let_def record_call_def split: sum.splits)

lemma juby_transfer_Inr:
  "juby_transfer w to amount = Inr w' \<longleftrightarrow>
     (\<exists>tk'. erc20_transfer (usdc w) (jubyAddress (ledger w)) to amount = Inr tk' \<and>
        w' = (record_call (TransferCall to amount) w)\<lparr>usdc := tk'\<rparr>)"
  by (auto simp: juby_transfer_def Let_def record_call_def split: sum.splits)

lemma juby_withdraw_staged:
  "juby_withdraw w sender now =
     (let d = deposits (ledger w) sender in
      if \<not> exists d then Inl (Revert ''No deposit found'')
      else
        bnd (juby_convertToAssets w now (shares d)) (\<lambda>cv.
        bnd (payout_split d cv now) (\<lambda>(penalty, userReceives).
        settle (set_deposit sender noDeposit
                  (record_call (ConvertToAssetsStaticCall (shares d)) w))
          sender now (shares d) cv
          (Withdrawn sender (principal d)
             (if principal d < cv then cv - principal d else 0)
             penalty userReceives (now < goalDate d))
          penalty userReceives)))"
  unfolding juby_withdraw_def payout_split_def settle_def pay_out_def Let_def
  by (rule refl)

lemma previewWithdrawal_staged:
  "previewWithdrawal w now user =
     (let d = deposits (ledger w) user in
      if \<not> exists d then Inr (0, 0)
      else
        bnd (juby_convertToAssets w now (shares d)) (\<lambda>cv.
        bnd (payout_split d cv now) (\<lambda>(penalty, userReceives).
        Inr (userReceives, penalty))))"
proof -
  have "(if c then bnd (bnd x (\<lambda>k. bnd (f k) (\<lambda>u. Inr (p, u)))) (\<lambda>(pn, ur). Inr (ur, pn))
         else bnd (Inr (0, cv)) (\<lambda>(pn, ur). Inr (ur, pn)))
      = (if c then bnd x (\<lambda>k. bnd (f k) (\<lambda>u. Inr (u, p))) else Inr (cv, 0))"
    for c :: bool and x :: "error + nat" and f :: "nat \<Rightarrow> error + nat" and p cv :: nat
    by (cases x; cases c) (auto simp: bnd_def split: sum.splits)
  then show ?thesis
    by (simp add: previewWithdrawal_def payout_split_def Let_def if_distrib [of "\<lambda>m. bnd m _"]
        cong: if_cong)
qed

lemma spec_yield_eq: "spec_yield cv p = (if p < cv then cv - p else 0)"
  by (auto simp: spec_yield_def)

lemma payout_split_Inr:
  assumes "payout_split d cv now = Inr (pen, pay)"
  shows "pen = spec_penalty (now < goalDate d) (spec_yield cv (principal d)) \<and>
         pay = spec_userReceives (now < goalDate d) (principal d) cv (spec_yield cv (principal d))"
  using assms
  by (auto simp: payout_split_def Let_def spec_penalty_def spec_yield_eq spec_userReceives_def
      bnd_eq_Inr checked_eq_Inr split: if_splits)

lemma payout_split_yield:
  assumes "payout_split d cv now = Inr (pen, pay)"
  shows "pen = (if now < goalDate d \<and> 0 < spec_yield cv (principal d)
                then spec_yield cv (principal d) div 2 else 0)"
    and "pay = (if now < goalDate d \<and> 0 < spec_yield cv (principal d)
                then principal d + (spec_yield cv (principal d) - pen) else cv)"
  using payout_split_Inr [OF assms]
  by (simp_all add: spec_penalty_def spec_userReceives_def)

lemma pay_out_Inr:
  assumes "pay_out w2 sender closing pen pay = Inr (r, w')"
  shows "\<exists>tk2 tk3.
     (if 0 < pen
      then erc20_transfer (usdc w2) (jubyAddress (ledger w2)) (jubyTreasury (ledger w2)) pen
             = Inr tk2
      else tk2 = usdc w2) \<and>
     erc20_transfer tk2 (jubyAddress (ledger w2)) sender pay = Inr tk3 \<and>
     r = pay \<and>
     w' = w2\<lparr>usdc := tk3,
             trace := trace w2 @
               payout_calls (deposits (ledger w2)) (jubyTreasury (ledger w2)) sender closing pen pay\<rparr>"
proof (cases "0 < pen")
  case True
  with assms show ?thesis
    by (auto simp: pay_out_def bnd_eq_Inr juby_transfer_Inr payout_calls_def
        record_call_def emit_def)
next
  case False
  with assms show ?thesis
    by (auto simp: pay_out_def bnd_eq_Inr juby_transfer_Inr payout_calls_def
        record_call_def emit_def)
qed

lemma settle_Inr:
  assumes "settle w1 sender now sh cv closing pen pay = Inr (r, w')"
  shows "\<exists>got v' tk1 tk2 tk3.
     vault_redeem (morpho w1) (usdc w1) (jubyAddress (ledger w1)) now sh
        (jubyAddress (ledger w1)) (jubyAddress (ledger w1)) = Inr (got, v', tk1) \<and>
     10 \<le> cv \<and> cv - 10 \<le> got \<and>
     (if 0 < pen
      then erc20_transfer tk1 (jubyAddress (ledger w1)) (jubyTreasury (ledger w1)) pen = Inr tk2
      else tk2 = tk1) \<and>
     erc20_transfer tk2 (jubyAddress (ledger w1)) sender pay = Inr tk3 \<and>
     r = pay \<and>
     w' = w1\<lparr>morpho := v', usdc := tk3,
             trace := trace w1 @ External (MorphoRedeemCall sh) (deposits (ledger w1)) #
               payout_calls (deposits (ledger w1)) (jubyTreasury (ledger w1)) sender closing pen pay\<rparr>"
proof -
  from assms obtain got w2 where
    red: "redeemFromMorpho w1 now sh = Inr (got, w2)" and
    slip: "10 \<le> cv" "cv - 10 \<le> got" and
    po: "pay_out w2 sender closing pen pay = Inr (r, w')"
    by (auto simp: settle_def bnd_eq_Inr checked_eq_Inr split: if_splits)
  from red obtain v' tk1 where
    vr: "vault_redeem (morpho w1) (usdc w1) (jubyAddress (ledger w1)) now sh
        (jubyAddress (ledger w1)) (jubyAddress (ledger w1)) = Inr (got, v', tk1)" and
    w2: "w2 = (record_call (MorphoRedeemCall sh) w1)\<lparr>morpho := v', usdc := tk1\<rparr>"
    by (auto simp: redeemFromMorpho_Inr)
  from pay_out_Inr [OF po] obtain tk2 tk3 where
    t2: "if 0 < pen
      then erc20_transfer (usdc w2) (jubyAddress (ledger w2)) (jubyTreasury (ledger w2)) pen
             = Inr tk2
      else tk2 = usdc w2" and
    t3: "erc20_transfer tk2 (jubyAddress (ledger w2)) sender pay = Inr tk3" and
    r: "r = pay" and
    w': "w' = w2\<lparr>usdc := tk3,
             trace := trace w2 @
               payout_calls (deposits (ledger w2)) (jubyTreasury (ledger w2)) sender closing pen pay\<rparr>"
    by blast
  have l2: "ledger w2 = ledger w1" and u2: "usdc w2 = tk1"
    and tr2: "trace w2 = trace w1 @ [External (MorphoRedeemCall sh) (deposits (ledger w1))]"
    by (simp_all add: w2 record_call_def)
  have "w' = w1\<lparr>morpho := v', usdc := tk3,
             trace := trace w1 @ External (MorphoRedeemCall sh) (deposits (ledger w1)) #
               payout_calls (deposits (ledger w1)) (jubyTreasury (ledger w1)) sender closing pen pay\<rparr>"
    unfolding w' by (simp add: w2 record_call_def)
  with vr slip t2 t3 r show ?thesis
    unfolding l2 u2 by blast
qed

text \<open>
  Every successful \<open>withdraw\<close> is this: the record exists, the vault values the shares,
  the payout is split, the vault redeems the shares, the value is at least the tolerance
  and the redeemed amount within it, the treasury is paid when the penalty is positive,
  the caller is paid, and the new state is the old one with the record deleted, the new
  vault and token, and the calls and events appended to the trace.
\<close>

lemma juby_withdraw_Inr:
  assumes "juby_withdraw w sender now = Inr (r, w')"
  shows "\<exists>cv pen got v' tk1 tk2 tk3.
     exists (deposits (ledger w) sender) \<and>
     convertToAssets (morpho w) now (shares (deposits (ledger w) sender)) = Inr cv \<and>
     payout_split (deposits (ledger w) sender) cv now = Inr (pen, r) \<and>
     vault_redeem (morpho w) (usdc w) (jubyAddress (ledger w)) now
        (shares (deposits (ledger w) sender)) (jubyAddress (ledger w)) (jubyAddress (ledger w))
       = Inr (got, v', tk1) \<and>
     10 \<le> cv \<and> cv - 10 \<le> got \<and>
     (if 0 < pen
      then erc20_transfer tk1 (jubyAddress (ledger w)) (jubyTreasury (ledger w)) pen = Inr tk2
      else tk2 = tk1) \<and>
     erc20_transfer tk2 (jubyAddress (ledger w)) sender r = Inr tk3 \<and>
     w' = w\<lparr>ledger := (ledger w)\<lparr>deposits := (deposits (ledger w))(sender := noDeposit)\<rparr>,
            morpho := v', usdc := tk3,
            trace := trace w @ withdraw_calls w sender now cv pen r\<rparr>"
proof -
  let ?d = "deposits (ledger w) sender"
  let ?w1 = "set_deposit sender noDeposit
               (record_call (ConvertToAssetsStaticCall (shares ?d)) w)"
  from assms have ex: "exists ?d"
    by (simp add: juby_withdraw_staged Let_def split: if_splits)
  from assms ex obtain cv pen pay where
    cv: "convertToAssets (morpho w) now (shares ?d) = Inr cv" and
    ps: "payout_split ?d cv now = Inr (pen, pay)" and
    st: "settle ?w1 sender now (shares ?d) cv
           (Withdrawn sender (principal ?d)
              (if principal ?d < cv then cv - principal ?d else 0) pen pay (now < goalDate ?d))
           pen pay = Inr (r, w')"
    by (auto simp: juby_withdraw_staged Let_def bnd_eq_Inr juby_convertToAssets_Inr)
  have l1: "ledger ?w1 = (ledger w)\<lparr>deposits := (deposits (ledger w))(sender := noDeposit)\<rparr>"
    and m1: "morpho ?w1 = morpho w" and u1: "usdc ?w1 = usdc w"
    and t1: "trace ?w1 =
       trace w @ [External (ConvertToAssetsStaticCall (shares ?d)) (deposits (ledger w))]"
    by (simp_all add: set_deposit_def record_call_def)
  from settle_Inr [OF st] obtain got v' tk1 tk2 tk3 where
    vr: "vault_redeem (morpho ?w1) (usdc ?w1) (jubyAddress (ledger ?w1)) now (shares ?d)
        (jubyAddress (ledger ?w1)) (jubyAddress (ledger ?w1)) = Inr (got, v', tk1)" and
    slip: "10 \<le> cv" "cv - 10 \<le> got" and
    t2: "if 0 < pen
      then erc20_transfer tk1 (jubyAddress (ledger ?w1)) (jubyTreasury (ledger ?w1)) pen = Inr tk2
      else tk2 = tk1" and
    t3: "erc20_transfer tk2 (jubyAddress (ledger ?w1)) sender pay = Inr tk3" and
    r: "r = pay" and
    w': "w' = ?w1\<lparr>morpho := v', usdc := tk3,
             trace := trace ?w1 @ External (MorphoRedeemCall (shares ?d)) (deposits (ledger ?w1)) #
               payout_calls (deposits (ledger ?w1)) (jubyTreasury (ledger ?w1)) sender
                 (Withdrawn sender (principal ?d)
                    (if principal ?d < cv then cv - principal ?d else 0) pen pay
                    (now < goalDate ?d)) pen pay\<rparr>"
    by blast
  have j1: "jubyAddress (ledger ?w1) = jubyAddress (ledger w)"
    and tr1: "jubyTreasury (ledger ?w1) = jubyTreasury (ledger w)"
    by (simp_all add: l1)
  have "w' = w\<lparr>ledger := (ledger w)\<lparr>deposits := (deposits (ledger w))(sender := noDeposit)\<rparr>,
            morpho := v', usdc := tk3,
            trace := trace w @ withdraw_calls w sender now cv pen r\<rparr>"
    unfolding w' r
    by (simp add: set_deposit_def record_call_def withdraw_calls_def Let_def spec_yield_eq)
  with ex cv ps vr slip t2 t3 show ?thesis
    unfolding j1 tr1 m1 u1 r by blast
qed

lemma transfers_of_withdraw_calls:
  "transfers_of (withdraw_calls w sender now cv pen pay) =
     (if 0 < pen then [(jubyTreasury (ledger w), pen)] else []) @ [(sender, pay)]"
  by (simp add: withdraw_calls_def payout_calls_def Let_def)

lemma calls_of_withdraw_calls:
  "calls_of (withdraw_calls w sender now cv pen pay) =
     [ConvertToAssetsStaticCall (shares (deposits (ledger w) sender)),
      MorphoRedeemCall (shares (deposits (ledger w) sender))] @
     (if 0 < pen then [TransferCall (jubyTreasury (ledger w)) pen] else []) @
     [TransferCall sender pay]"
  by (simp add: withdraw_calls_def payout_calls_def Let_def)

lemma withdraw_calls_snapshots:
  assumes "External c snap \<in> set (withdraw_calls w sender now cv pen pay)"
    and "changes_state c"
  shows "snap = (deposits (ledger w))(sender := noDeposit)"
  using assms
  by (auto simp: withdraw_calls_def payout_calls_def Let_def split: if_splits)

lemma last_withdraw_calls:
  "last (trace w @ withdraw_calls w sender now cv pen pay) =
     Emitted (Withdrawn sender (principal (deposits (ledger w) sender))
       (spec_yield cv (principal (deposits (ledger w) sender))) pen pay
       (now < goalDate (deposits (ledger w) sender)))"
  by (simp add: withdraw_calls_def payout_calls_def Let_def)

text \<open>Token balances of accounts that are not a party to a transfer or a redemption.\<close>

lemma erc20_transfer_other:
  assumes "erc20_transfer tk caller to amount = Inr tk'" and "a \<noteq> caller"
  shows "tokenBalance tk' a = tokenBalance tk a + (if a = to then amount else 0)"
  using assms
  by (auto simp: erc20_transfer_def Let_def bnd_eq_Inr checked_eq_Inr split: if_splits)

lemma accrueYield_address: "accrueYield v now = Inr v' \<Longrightarrow> vaultAddress v' = vaultAddress v"
  by (auto simp: accrueYield_def bnd_eq_Inr)

lemma spendAllowance_address:
  "spendAllowance v sender ownr sh = Inr v' \<Longrightarrow> vaultAddress v' = vaultAddress v"
  by (auto simp: spendAllowance_def Let_def split: if_splits)

lemma burnAndPay_token_other:
  assumes "burnAndPay v tk ownr receiver sh assets = Inr (v', tk')"
    and "a \<noteq> vaultAddress v" and "a \<noteq> receiver"
  shows "tokenBalance tk' a = tokenBalance tk a"
proof -
  from assms(1) obtain tk1 where
    "erc20_transfer tk (vaultAddress v) receiver assets = Inr tk1" and "tk' = tk1"
    by (auto simp: burnAndPay_def vault_transfer_def Let_def bnd_eq_Inr split: sum.splits)
  with erc20_transfer_other [of tk "vaultAddress v" receiver assets tk1 a] assms(2,3)
  show ?thesis by simp
qed

lemma vault_redeem_token_other:
  assumes "vault_redeem v tk sender now sh receiver ownr = Inr (got, v', tk')"
    and "a \<noteq> vaultAddress v" and "a \<noteq> receiver"
  shows "tokenBalance tk' a = tokenBalance tk a"
proof -
  from assms(1) obtain v1 v2 assets v3 where
    s: "spendAllowance v sender ownr sh = Inr v1" and
    y: "accrueYield v1 now = Inr v2" and
    b: "burnAndPay v2 tk ownr receiver sh assets = Inr (v3, tk')"
    by (auto simp: vault_redeem_def bnd_eq_Inr split: if_splits)
  have "vaultAddress v2 = vaultAddress v"
    using spendAllowance_address [OF s] accrueYield_address [OF y] by simp
  with burnAndPay_token_other [OF b] assms(2,3) show ?thesis by simp
qed

text \<open>The concrete states are reached by the deposits that define them.\<close>

lemma saving_world_reached:
  "0 < goal \<Longrightarrow> juby_deposit deployed_world 1001 0 1000000000 goal = Inr (1000000000, saving_world goal)"
  by (simp add: saving_world_def deployed_world_def fresh_vault_def juby_defs arith_defs vault_defs token_defs)

lemma small_world_reached:
  "juby_deposit (saving_world 1000) 1002 0 5 1000 = Inr (5, small_world)"
  by (simp add: small_world_def saving_world_def deployed_world_def fresh_vault_def
        juby_defs arith_defs vault_defs token_defs)

section \<open>JubyVault: penalty, preview, ordering and the small position\<close>

text \<open>
  C1: a successful \<open>withdraw()\<close> by an account with an active deposit values the shares
  at \<open>currentValue = convertToAssets(shares)\<close>, takes
  \<open>yield = max(currentValue - principal, 0)\<close> and \<open>isEarly = (now < goalDate)\<close>; if it is
  early and the yield is positive the penalty is \<open>floor(yield / 2)\<close> and the caller
  receives \<open>principal + (yield - penalty)\<close>, otherwise the penalty is 0 and the caller
  receives \<open>currentValue\<close>. The value returned is what the caller receives; the token
  transfers JubyVault makes are the penalty to the treasury (when positive) and that
  amount to the caller, and the token balance of every account other than JubyVault and
  the vault changes by exactly these. With principal 1000000000 and yield 570, early pays
  1000000285 and 285, on time pays 1000000570 and 0.
\<close>

theorem withdraw_payout:
  assumes "juby_withdraw w sender now = Inr (r, w')"
  shows "\<exists>currentValue.
     exists (deposits (ledger w) sender) \<and>
     convertToAssets (morpho w) now (shares (deposits (ledger w) sender)) = Inr currentValue \<and>
     (let p = principal (deposits (ledger w) sender);
          yield = nat (max (int currentValue - int p) 0);
          isEarly = (now < goalDate (deposits (ledger w) sender));
          penalty = (if isEarly \<and> 0 < yield then yield div 2 else 0);
          userReceives = (if isEarly \<and> 0 < yield then p + (yield - penalty) else currentValue);
          treasury = jubyTreasury (ledger w)
      in r = userReceives \<and>
         transfers_of (drop (length (trace w)) (trace w')) =
           (if 0 < penalty then [(treasury, penalty)] else []) @ [(sender, userReceives)] \<and>
         (\<forall>a. a \<noteq> jubyAddress (ledger w) \<and> a \<noteq> vaultAddress (morpho w) \<longrightarrow>
            tokenBalance (usdc w') a =
              tokenBalance (usdc w) a + (if a = treasury then penalty else 0)
                + (if a = sender then userReceives else 0)) \<and>
         (p = 1000000000 \<and> yield = 570 \<longrightarrow>
            (isEarly \<longrightarrow> userReceives = 1000000285 \<and> penalty = 285) \<and>
            (\<not> isEarly \<longrightarrow> userReceives = 1000000570 \<and> penalty = 0)))"
proof -
  let ?d = "deposits (ledger w) sender"
  let ?J = "jubyAddress (ledger w)"
  let ?T = "jubyTreasury (ledger w)"
  from juby_withdraw_Inr [OF assms] obtain cv pen got v' tk1 tk2 tk3 where
    ex: "exists ?d" and
    cv: "convertToAssets (morpho w) now (shares ?d) = Inr cv" and
    ps: "payout_split ?d cv now = Inr (pen, r)" and
    vr: "vault_redeem (morpho w) (usdc w) ?J now (shares ?d) ?J ?J = Inr (got, v', tk1)" and
    t2: "if 0 < pen then erc20_transfer tk1 ?J ?T pen = Inr tk2 else tk2 = tk1" and
    t3: "erc20_transfer tk2 ?J sender r = Inr tk3" and
    w': "w' = w\<lparr>ledger := (ledger w)\<lparr>deposits := (deposits (ledger w))(sender := noDeposit)\<rparr>,
            morpho := v', usdc := tk3,
            trace := trace w @ withdraw_calls w sender now cv pen r\<rparr>"
    by blast
  let ?y = "nat (max (int cv - int (principal ?d)) 0)"
  have y: "spec_yield cv (principal ?d) = ?y" by (simp add: spec_yield_def)
  note pen = payout_split_yield(1) [OF ps, unfolded y]
  note pay = payout_split_yield(2) [OF ps, unfolded y]
  have tr: "transfers_of (drop (length (trace w)) (trace w')) =
      (if 0 < pen then [(?T, pen)] else []) @ [(sender, r)]"
    by (simp add: w' transfers_of_withdraw_calls)
  have bal: "tokenBalance (usdc w') a =
       tokenBalance (usdc w) a + (if a = ?T then pen else 0) + (if a = sender then r else 0)"
    if a: "a \<noteq> ?J" "a \<noteq> vaultAddress (morpho w)" for a
  proof -
    have b1: "tokenBalance tk1 a = tokenBalance (usdc w) a"
      using vault_redeem_token_other [OF vr a(2) a(1)] .
    have b2: "tokenBalance tk2 a = tokenBalance tk1 a + (if a = ?T then pen else 0)"
    proof (cases "0 < pen")
      case True
      with t2 have "erc20_transfer tk1 ?J ?T pen = Inr tk2" by simp
      from erc20_transfer_other [OF this a(1)] show ?thesis .
    next
      case False
      with t2 show ?thesis by simp
    qed
    have b3: "tokenBalance tk3 a = tokenBalance tk2 a + (if a = sender then r else 0)"
      using erc20_transfer_other [OF t3 a(1)] .
    show ?thesis unfolding w' using b1 b2 b3 by simp
  qed
  have num: "principal ?d = 1000000000 \<and> ?y = 570 \<longrightarrow>
      (now < goalDate ?d \<longrightarrow> r = 1000000285 \<and> pen = 285) \<and>
      (\<not> now < goalDate ?d \<longrightarrow> r = 1000000570 \<and> pen = 0)"
  proof (intro impI conjI)
    assume h: "principal ?d = 1000000000 \<and> ?y = 570"
    define y where "y = ?y"
    have y570: "y = 570" unfolding y_def using h by (rule conjunct2)
    have p9: "principal ?d = 1000000000" using h by (rule conjunct1)
    have cv570: "cv = 1000000570" using y570 p9 unfolding y_def by linarith
    have peny: "pen = (if now < goalDate ?d \<and> 0 < y then y div 2 else 0)"
      using pen unfolding y_def .
    have payy: "r = (if now < goalDate ?d \<and> 0 < y then principal ?d + (y - pen) else cv)"
      using pay unfolding y_def .
    {
      assume e: "now < goalDate ?d"
      from peny e y570 show p285: "pen = 285" by simp
      from payy e y570 p9 p285 show "r = 1000000285" by simp
    }
    {
      assume e: "\<not> now < goalDate ?d"
      from peny e show "pen = 0" by simp
      from payy e cv570 show "r = 1000000570" by simp
    }
  qed
  have goal: "r = r \<and>
         transfers_of (drop (length (trace w)) (trace w')) =
           (if 0 < pen then [(?T, pen)] else []) @ [(sender, r)] \<and>
         (\<forall>a. a \<noteq> ?J \<and> a \<noteq> vaultAddress (morpho w) \<longrightarrow>
            tokenBalance (usdc w') a =
              tokenBalance (usdc w) a + (if a = ?T then pen else 0)
                + (if a = sender then r else 0)) \<and>
         (principal ?d = 1000000000 \<and> ?y = 570 \<longrightarrow>
            (now < goalDate ?d \<longrightarrow> r = 1000000285 \<and> pen = 285) \<and>
            (\<not> now < goalDate ?d \<longrightarrow> r = 1000000570 \<and> pen = 0))"
    using tr bal num by blast
  show ?thesis
    apply (rule exI [of _ cv])
    apply (intro conjI ex cv)
    apply (simp only: Let_def)
    apply (fold pen)
    apply (fold pay)
    apply (rule goal)
    done
qed

text \<open>
  Account 1001 withdraws 360 seconds after depositing 1000 USDC, when the shares are worth
  1000000570: before a goal date of 1000, and after a goal date of 100.
\<close>

theorem withdraw_payout_witness:
  "(\<exists>w'. juby_withdraw (saving_world 1000) 1001 360 = Inr (1000000285, w') \<and>
      tokenBalance (usdc w') 1001 = 1000000285 \<and> tokenBalance (usdc w') 2002 = 285) \<and>
   (\<exists>w'. juby_withdraw (saving_world 100) 1001 360 = Inr (1000000570, w') \<and>
      tokenBalance (usdc w') 1001 = 1000000570 \<and> tokenBalance (usdc w') 2002 = 0)"
proof -
  have early: "\<exists>w'. juby_withdraw (saving_world 1000) 1001 360 = Inr (1000000285, w')"
    by (simp add: saving_world_def deployed_world_def fresh_vault_def juby_defs arith_defs
        vault_defs token_defs)
  then obtain w1 where w1: "juby_withdraw (saving_world 1000) 1001 360 = Inr (1000000285, w1)" ..
  have late: "\<exists>w'. juby_withdraw (saving_world 100) 1001 360 = Inr (1000000570, w')"
    by (simp add: saving_world_def deployed_world_def fresh_vault_def juby_defs arith_defs
        vault_defs token_defs)
  then obtain w2 where w2: "juby_withdraw (saving_world 100) 1001 360 = Inr (1000000570, w2)" ..
  have f1: "deposits (ledger (saving_world 1000)) 1001 =
       \<lparr>shares = 1000000000, principal = 1000000000, goalDate = 1000, depositDate = 0,
        exists = True\<rparr>"
    "jubyAddress (ledger (saving_world 1000)) = 3003"
    "jubyTreasury (ledger (saving_world 1000)) = 2002"
    "vaultAddress (morpho (saving_world 1000)) = 4004"
    "tokenBalance (usdc (saving_world 1000)) 1001 = 0"
    "tokenBalance (usdc (saving_world 1000)) 2002 = 0"
    "convertToAssets (morpho (saving_world 1000)) 360 1000000000 = Inr 1000000570"
    by (simp_all add: saving_world_def deployed_world_def fresh_vault_def juby_defs arith_defs
        vault_defs token_defs)
  have f2: "deposits (ledger (saving_world 100)) 1001 =
       \<lparr>shares = 1000000000, principal = 1000000000, goalDate = 100, depositDate = 0,
        exists = True\<rparr>"
    "jubyAddress (ledger (saving_world 100)) = 3003"
    "jubyTreasury (ledger (saving_world 100)) = 2002"
    "vaultAddress (morpho (saving_world 100)) = 4004"
    "tokenBalance (usdc (saving_world 100)) 1001 = 0"
    "tokenBalance (usdc (saving_world 100)) 2002 = 0"
    "convertToAssets (morpho (saving_world 100)) 360 1000000000 = Inr 1000000570"
    by (simp_all add: saving_world_def deployed_world_def fresh_vault_def juby_defs arith_defs
        vault_defs token_defs)
  from withdraw_payout [OF w1]
  have "tokenBalance (usdc w1) 1001 = 1000000285 \<and> tokenBalance (usdc w1) 2002 = 285"
    by (simp add: f1 Let_def)
  moreover from withdraw_payout [OF w2]
  have "tokenBalance (usdc w2) 1001 = 1000000570 \<and> tokenBalance (usdc w2) 2002 = 0"
    by (simp add: f2 Let_def)
  ultimately show ?thesis using w1 w2 by blast
qed

text \<open>
  C2: \<open>previewWithdrawal(account)\<close> is a view (it maps the state, the time and the account
  to a pair and produces no new state). It returns \<open>(0, 0)\<close> for an account with no
  active deposit; and whenever \<open>withdraw()\<close> by the account succeeds at the same instant
  in the same state, paying \<open>r\<close> to the caller and the penalty of its \<open>Withdrawn\<close> event to
  the treasury, \<open>previewWithdrawal\<close> returns exactly that pair.
\<close>

theorem preview_matches_withdraw:
  "(\<not> exists (deposits (ledger w) user) \<longrightarrow> previewWithdrawal w now user = Inr (0, 0)) \<and>
   (\<forall>r w'. juby_withdraw w user now = Inr (r, w') \<longrightarrow>
      (\<exists>p yield penalty isEarly.
         last (trace w') = Emitted (Withdrawn user p yield penalty r isEarly) \<and>
         transfers_of (drop (length (trace w)) (trace w')) =
           (if 0 < penalty then [(jubyTreasury (ledger w), penalty)] else []) @ [(user, r)] \<and>
         previewWithdrawal w now user = Inr (r, penalty)))"
proof (intro conjI allI impI)
  assume "\<not> exists (deposits (ledger w) user)"
  then show "previewWithdrawal w now user = Inr (0, 0)"
    by (simp add: previewWithdrawal_def)
next
  fix r w'
  assume h: "juby_withdraw w user now = Inr (r, w')"
  let ?d = "deposits (ledger w) user"
  from juby_withdraw_Inr [OF h] obtain cv pen v' tk3 where
    ex: "exists ?d" and
    cv: "convertToAssets (morpho w) now (shares ?d) = Inr cv" and
    ps: "payout_split ?d cv now = Inr (pen, r)" and
    w': "w' = w\<lparr>ledger := (ledger w)\<lparr>deposits := (deposits (ledger w))(user := noDeposit)\<rparr>,
            morpho := v', usdc := tk3,
            trace := trace w @ withdraw_calls w user now cv pen r\<rparr>"
    by blast
  have "last (trace w') =
      Emitted (Withdrawn user (principal ?d) (spec_yield cv (principal ?d)) pen r
                 (now < goalDate ?d))"
    by (simp add: w' last_withdraw_calls)
  moreover have "transfers_of (drop (length (trace w)) (trace w')) =
      (if 0 < pen then [(jubyTreasury (ledger w), pen)] else []) @ [(user, r)]"
    by (simp add: w' transfers_of_withdraw_calls)
  moreover have "previewWithdrawal w now user = Inr (r, pen)"
    using ex cv ps by (simp add: previewWithdrawal_staged juby_convertToAssets_def)
  ultimately show "\<exists>p yield penalty isEarly.
         last (trace w') = Emitted (Withdrawn user p yield penalty r isEarly) \<and>
         transfers_of (drop (length (trace w)) (trace w')) =
           (if 0 < penalty then [(jubyTreasury (ledger w), penalty)] else []) @ [(user, r)] \<and>
         previewWithdrawal w now user = Inr (r, penalty)"
    by blast
qed

theorem preview_matches_withdraw_witness:
  "\<not> exists (deposits (ledger (saving_world 1000)) 1002) \<and>
   previewWithdrawal (saving_world 1000) 360 1002 = Inr (0, 0) \<and>
   (\<exists>w'. juby_withdraw (saving_world 1000) 1001 360 = Inr (1000000285, w')) \<and>
   previewWithdrawal (saving_world 1000) 360 1001 = Inr (1000000285, 285)"
proof -
  have n: "\<not> exists (deposits (ledger (saving_world 1000)) 1002)"
    by (simp add: saving_world_def deployed_world_def fresh_vault_def juby_defs arith_defs
        vault_defs token_defs)
  have early: "\<exists>w'. juby_withdraw (saving_world 1000) 1001 360 = Inr (1000000285, w') \<and>
      transfers_of (drop (length (trace (saving_world 1000))) (trace w')) =
        [(2002, 285), (1001, 1000000285)]"
    by (simp add: saving_world_def deployed_world_def fresh_vault_def juby_defs arith_defs
        vault_defs token_defs)
  then obtain w1 where w1: "juby_withdraw (saving_world 1000) 1001 360 = Inr (1000000285, w1)"
    and tr: "transfers_of (drop (length (trace (saving_world 1000))) (trace w1)) =
      [(2002, 285), (1001, 1000000285)]" by blast
  have t: "jubyTreasury (ledger (saving_world 1000)) = 2002"
    by (simp add: saving_world_def deployed_world_def fresh_vault_def juby_defs arith_defs
        vault_defs token_defs)
  from preview_matches_withdraw [of "saving_world 1000" 1002 360] n
  have a: "previewWithdrawal (saving_world 1000) 360 1002 = Inr (0, 0)" by blast
  from preview_matches_withdraw [of "saving_world 1000" 1001 360] w1 obtain penalty where
    p1: "transfers_of (drop (length (trace (saving_world 1000))) (trace w1)) =
           (if 0 < penalty then [(jubyTreasury (ledger (saving_world 1000)), penalty)] else [])
             @ [(1001, 1000000285)]" and
    p2: "previewWithdrawal (saving_world 1000) 360 1001 = Inr (1000000285, penalty)"
    by blast
  from p1 tr have "penalty = 285" by (simp add: t split: if_splits)
  with p2 a n w1 show ?thesis by blast
qed

text \<open>
  C9: in every successful \<open>withdraw()\<close> the caller's record is deleted before the
  redemption from the vault and before the transfers to the treasury and to the caller.
  The calls made are the read-only \<open>convertToAssets\<close> static call, the redemption, the
  transfer to the treasury when the penalty is positive, and the transfer to the caller,
  in this order; every state-changing call among them is issued with the caller's record
  already deleted from storage, so a call back into JubyVault during any of them reads the
  record as not active; and the record is still deleted when \<open>withdraw\<close> returns.
\<close>

theorem record_deleted_before_external_calls:
  assumes "juby_withdraw w sender now = Inr (r, w')"
  shows "\<exists>penalty.
     trace w' = trace w @ drop (length (trace w)) (trace w') \<and>
     calls_of (drop (length (trace w)) (trace w')) =
       [ConvertToAssetsStaticCall (shares (deposits (ledger w) sender)),
        MorphoRedeemCall (shares (deposits (ledger w) sender))] @
       (if 0 < penalty then [TransferCall (jubyTreasury (ledger w)) penalty] else []) @
       [TransferCall sender r] \<and>
     (\<forall>c snap. External c snap \<in> set (drop (length (trace w)) (trace w')) \<and> changes_state c
        \<longrightarrow> \<not> exists (snap sender)) \<and>
     \<not> exists (deposits (ledger w') sender)"
proof -
  from juby_withdraw_Inr [OF assms] obtain cv pen v' tk3 where
    w': "w' = w\<lparr>ledger := (ledger w)\<lparr>deposits := (deposits (ledger w))(sender := noDeposit)\<rparr>,
            morpho := v', usdc := tk3,
            trace := trace w @ withdraw_calls w sender now cv pen r\<rparr>"
    by blast
  have new: "drop (length (trace w)) (trace w') = withdraw_calls w sender now cv pen r"
    by (simp add: w')
  have "trace w' = trace w @ drop (length (trace w)) (trace w')"
    unfolding new by (simp add: w')
  moreover have "\<not> exists (snap sender)"
    if "External c snap \<in> set (drop (length (trace w)) (trace w')) \<and> changes_state c"
    for c snap
  proof -
    from that have "snap = (deposits (ledger w))(sender := noDeposit)"
      unfolding new by (blast intro: withdraw_calls_snapshots)
    then show ?thesis by (simp add: noDeposit_def)
  qed
  moreover have "\<not> exists (deposits (ledger w') sender)"
    by (simp add: w' noDeposit_def)
  ultimately show ?thesis
    unfolding new calls_of_withdraw_calls by blast
qed

theorem record_deleted_before_external_calls_witness:
  "\<exists>w'. juby_withdraw (saving_world 1000) 1001 360 = Inr (1000000285, w') \<and>
     calls_of (drop (length (trace (saving_world 1000))) (trace w')) =
       [ConvertToAssetsStaticCall 1000000000, MorphoRedeemCall 1000000000,
        TransferCall 2002 285, TransferCall 1001 1000000285] \<and>
     \<not> exists (deposits (ledger w') 1001)"
proof -
  have "\<exists>w'. juby_withdraw (saving_world 1000) 1001 360 = Inr (1000000285, w') \<and>
     calls_of (drop (length (trace (saving_world 1000))) (trace w')) =
       [ConvertToAssetsStaticCall 1000000000, MorphoRedeemCall 1000000000,
        TransferCall 2002 285, TransferCall 1001 1000000285]"
    by (simp add: saving_world_def deployed_world_def fresh_vault_def juby_defs arith_defs
        vault_defs token_defs)
  then obtain w1 where
    w1: "juby_withdraw (saving_world 1000) 1001 360 = Inr (1000000285, w1)" and
    c1: "calls_of (drop (length (trace (saving_world 1000))) (trace w1)) =
       [ConvertToAssetsStaticCall 1000000000, MorphoRedeemCall 1000000000,
        TransferCall 2002 285, TransferCall 1001 1000000285]" by blast
  from record_deleted_before_external_calls [OF w1]
  have "\<not> exists (deposits (ledger w1) 1001)" by blast
  with w1 c1 show ?thesis by blast
qed

lemma ten_fits: "10 \<le> MAX_UINT256"
  by (simp add: MAX_UINT256_def)

lemma redeemFromMorpho_cases:
  "redeemFromMorpho w now sh = Inl (Revert ''Morpho redeem failed'') \<or>
   (\<exists>got w2. redeemFromMorpho w now sh = Inr (got, w2))"
  by (auto simp: redeemFromMorpho_def Let_def split: sum.splits)

text \<open>
  C10: when the shares of an active deposit are worth less than 10 asset units,
  \<open>withdraw()\<close> fails: either the redemption fails, or it succeeds and the slippage check
  \<open>currentValue - 10\<close> underflows, which is panic 0x11 (17), however much was redeemed.
\<close>

theorem small_position_cannot_withdraw:
  assumes "exists (deposits (ledger w) sender)"
    and "convertToAssets (morpho w) now (shares (deposits (ledger w) sender)) = Inr currentValue"
    and "currentValue < 10"
  shows "juby_withdraw w sender now = Inl (Revert ''Morpho redeem failed'') \<or>
         juby_withdraw w sender now = Inl (Panic 17)"
proof -
  let ?d = "deposits (ledger w) sender"
  let ?w1 = "set_deposit sender noDeposit
               (record_call (ConvertToAssetsStaticCall (shares ?d)) w)"
  have cv: "juby_convertToAssets w now (shares ?d) = Inr currentValue"
    using assms(2) by (simp add: juby_convertToAssets_def)
  obtain pen pay where ps: "payout_split ?d currentValue now = Inr (pen, pay)"
  proof (cases "now < goalDate ?d \<and> principal ?d < currentValue")
    case True
    define y where "y = currentValue - principal ?d"
    have ypos: "0 < y" using True by (simp add: y_def)
    have ydef: "(if principal ?d < currentValue then currentValue - principal ?d else 0) = y"
      using True by (simp add: y_def)
    have "principal ?d + (y - y div 2) \<le> 10"
      using True assms(3) unfolding y_def by arith
    then have fit: "principal ?d + (y - y div 2) \<le> MAX_UINT256"
      using ten_fits by (rule order_trans)
    have "payout_split ?d currentValue now = Inr (y div 2, principal ?d + (y - y div 2))"
      unfolding payout_split_def Let_def ydef
      using True ypos fit by (simp add: checked_sub_def checked_add_def)
    with that show ?thesis by blast
  next
    case False
    with that show ?thesis
      by (auto simp: payout_split_def Let_def)
  qed
  have sub: "checked_sub currentValue 10 = Inl (Panic 17)"
    using assms(3) by (simp add: checked_sub_def)
  have eq: "juby_withdraw w sender now =
      settle ?w1 sender now (shares ?d) currentValue
          (Withdrawn sender (principal ?d)
             (if principal ?d < currentValue then currentValue - principal ?d else 0)
             pen pay (now < goalDate ?d))
          pen pay"
    using assms(1) cv ps by (simp add: juby_withdraw_staged Let_def)
  from redeemFromMorpho_cases [of ?w1 now "shares ?d"] show ?thesis
  proof
    assume "redeemFromMorpho ?w1 now (shares ?d) = Inl (Revert ''Morpho redeem failed'')"
    then show ?thesis unfolding eq by (simp add: settle_def)
  next
    assume "\<exists>got w2. redeemFromMorpho ?w1 now (shares ?d) = Inr (got, w2)"
    then obtain got w2 where "redeemFromMorpho ?w1 now (shares ?d) = Inr (got, w2)" by blast
    then show ?thesis unfolding eq by (simp add: settle_def sub)
  qed
qed

text \<open>
  Account 1002 has deposited 5 units; its redemption would succeed, and its withdrawal
  panics.
\<close>

theorem small_position_cannot_withdraw_witness:
  "exists (deposits (ledger small_world) 1002) \<and>
   convertToAssets (morpho small_world) 0 (shares (deposits (ledger small_world) 1002)) = Inr 5 \<and>
   (5::nat) < 10 \<and>
   juby_withdraw small_world 1002 0 = Inl (Panic 17)"
proof -
  have h1: "exists (deposits (ledger small_world) 1002)"
    and h2: "convertToAssets (morpho small_world) 0
               (shares (deposits (ledger small_world) 1002)) = Inr 5"
    and nr: "juby_withdraw small_world 1002 0 \<noteq> Inl (Revert ''Morpho redeem failed'')"
    by (simp_all add: small_world_def saving_world_def deployed_world_def fresh_vault_def
        juby_defs arith_defs vault_defs token_defs)
  have h3: "(5::nat) < 10" by simp
  from small_position_cannot_withdraw [OF h1 h2 h3] nr
  have "juby_withdraw small_world 1002 0 = Inl (Panic 17)" by blast
  with h1 h2 h3 show ?thesis by blast
qed

section \<open>JubyVault: the state machine of a deposit record\<close>

lemma juby_transferFrom_ledger:
  "juby_transferFrom w from to amount = Inr w' \<Longrightarrow> ledger w' = ledger w"
  by (auto simp: juby_transferFrom_def Let_def record_call_def split: sum.splits)

lemma juby_approve_ledger:
  "juby_approve w spender amount = Inr w' \<Longrightarrow> ledger w' = ledger w"
  by (auto simp: juby_approve_def Let_def record_call_def split: sum.splits)

lemma depositToMorpho_ledger:
  "depositToMorpho w now assets = Inr (sh, w') \<Longrightarrow> ledger w' = ledger w"
  by (auto simp: depositToMorpho_def Let_def record_call_def split: sum.splits)

lemma juby_deposit_Inr:
  assumes "juby_deposit w sender now amount goal = Inr (sh, w')"
  shows "0 < amount \<and> now < goal \<and> \<not> exists (deposits (ledger w) sender) \<and>
     deposits (ledger w') = (deposits (ledger w))
       (sender := \<lparr>shares = sh, principal = amount, goalDate = goal,
                   depositDate = now, exists = True\<rparr>)"
proof -
  from assms have pre: "0 < amount" "now < goal" "\<not> exists (deposits (ledger w) sender)"
    by (simp_all add: juby_deposit_def split: if_splits)
  with assms obtain w1 w2 w3 where
    s1: "juby_transferFrom w sender (jubyAddress (ledger w)) amount = Inr w1" and
    s2: "juby_approve w1 (vaultAddress (morpho w1)) amount = Inr w2" and
    s3: "depositToMorpho w2 now amount = Inr (sh, w3)" and
    w': "w' = emit (Deposited sender amount sh goal now)
                (set_deposit sender
                   \<lparr>shares = sh, principal = amount, goalDate = goal,
                    depositDate = now, exists = True\<rparr> w3)"
    by (auto simp: juby_deposit_def bnd_eq_Inr Let_def)
  have "ledger w3 = ledger w"
    using juby_transferFrom_ledger [OF s1] juby_approve_ledger [OF s2]
      depositToMorpho_ledger [OF s3] by simp
  then have "deposits (ledger w') = (deposits (ledger w))
       (sender := \<lparr>shares = sh, principal = amount, goalDate = goal,
                   depositDate = now, exists = True\<rparr>)"
    by (simp add: w' emit_def set_deposit_def)
  with pre show ?thesis by simp
qed

text \<open>
  C8, as stated, fails in one point: \<open>deposit\<close> checks the amount and the goal date before
  it looks at the record, so a deposit call by an account with an active record fails
  with the error of the first check that fails, which need not be the duplicate-deposit
  one.
\<close>

theorem deposit_error_not_always_duplicate:
  "exists (deposits (ledger (saving_world 1000)) 1001) \<and>
   juby_deposit (saving_world 1000) 1001 0 0 1000 = Inl (Revert ''Cannot deposit 0'') \<and>
   juby_deposit (saving_world 1000) 1001 2000 5 1000 = Inl (Revert ''Goal date must be in future'')"
  by (simp add: saving_world_def deployed_world_def fresh_vault_def juby_defs arith_defs
        vault_defs token_defs)

text \<open>
  C8, amended: for an account whose record exists, every \<open>deposit\<close> call fails and leaves
  all state unchanged, and the error is the duplicate-active-deposit one whenever the
  amount is nonzero and the goal date is in the future; for an account with no active
  record, \<open>withdraw\<close> fails with the no-active-deposit error, all state unchanged. The
  only transitions are: a successful \<open>deposit\<close> takes the caller's record from absent to
  active, a successful \<open>withdraw\<close> from active to absent, neither touches another
  account's record, and the administrative operations touch no record.
\<close>

theorem deposit_state_machine:
  "(exists (deposits (ledger w) sender) \<longrightarrow>
      (\<exists>e. transact (\<lambda>s. juby_deposit s sender now amount goal) w = (Inl e, w)) \<and>
      (0 < amount \<and> now < goal \<longrightarrow>
         transact (\<lambda>s. juby_deposit s sender now amount goal) w =
           (Inl (Revert ''Existing deposit found. Withdraw first.''), w))) \<and>
   (\<not> exists (deposits (ledger w) sender) \<longrightarrow>
      transact (\<lambda>s. juby_withdraw s sender now) w = (Inl (Revert ''No deposit found''), w)) \<and>
   (\<forall>sh w'. juby_deposit w sender now amount goal = Inr (sh, w') \<longrightarrow>
      \<not> exists (deposits (ledger w) sender) \<and> exists (deposits (ledger w') sender) \<and>
      (\<forall>a. a \<noteq> sender \<longrightarrow> deposits (ledger w') a = deposits (ledger w) a)) \<and>
   (\<forall>r w'. juby_withdraw w sender now = Inr (r, w') \<longrightarrow>
      exists (deposits (ledger w) sender) \<and> \<not> exists (deposits (ledger w') sender) \<and>
      (\<forall>a. a \<noteq> sender \<longrightarrow> deposits (ledger w') a = deposits (ledger w) a)) \<and>
   (\<forall>w'. updateTreasury w sender addr = Inr ((), w') \<longrightarrow>
      deposits (ledger w') = deposits (ledger w)) \<and>
   (\<forall>w'. transferOwnership w sender addr = Inr ((), w') \<longrightarrow>
      deposits (ledger w') = deposits (ledger w))"
proof (intro conjI allI impI)
  assume "exists (deposits (ledger w) sender)"
  then show "\<exists>e. transact (\<lambda>s. juby_deposit s sender now amount goal) w = (Inl e, w)"
    by (simp add: transact_def juby_deposit_def)
next
  assume "exists (deposits (ledger w) sender)" and "0 < amount \<and> now < goal"
  then show "transact (\<lambda>s. juby_deposit s sender now amount goal) w =
           (Inl (Revert ''Existing deposit found. Withdraw first.''), w)"
    by (simp add: transact_def juby_deposit_def)
next
  assume "\<not> exists (deposits (ledger w) sender)"
  then show "transact (\<lambda>s. juby_withdraw s sender now) w =
      (Inl (Revert ''No deposit found''), w)"
    by (simp add: transact_def juby_withdraw_def)
next
  fix sh w'
  assume h: "juby_deposit w sender now amount goal = Inr (sh, w')"
  note d = juby_deposit_Inr [OF h]
  from d show "\<not> exists (deposits (ledger w) sender)" by simp
  from d show "exists (deposits (ledger w') sender)" by simp
  fix a
  assume "a \<noteq> sender"
  with d show "deposits (ledger w') a = deposits (ledger w) a" by simp
next
  fix r w'
  assume h: "juby_withdraw w sender now = Inr (r, w')"
  from juby_withdraw_Inr [OF h] obtain cv pen v' tk3 where
    ex: "exists (deposits (ledger w) sender)" and
    w': "w' = w\<lparr>ledger := (ledger w)\<lparr>deposits := (deposits (ledger w))(sender := noDeposit)\<rparr>,
            morpho := v', usdc := tk3,
            trace := trace w @ withdraw_calls w sender now cv pen r\<rparr>"
    by blast
  from ex show "exists (deposits (ledger w) sender)" .
  show "\<not> exists (deposits (ledger w') sender)"
    by (simp add: w' noDeposit_def)
  fix a
  assume "a \<noteq> sender"
  then show "deposits (ledger w') a = deposits (ledger w) a"
    by (simp add: w')
next
  fix w'
  assume "updateTreasury w sender addr = Inr ((), w')"
  then show "deposits (ledger w') = deposits (ledger w)"
    by (auto simp: updateTreasury_def Let_def emit_def split: if_splits)
next
  fix w'
  assume "transferOwnership w sender addr = Inr ((), w')"
  then show "deposits (ledger w') = deposits (ledger w)"
    by (auto simp: transferOwnership_def split: if_splits)
qed

theorem deposit_state_machine_witness:
  "exists (deposits (ledger (saving_world 1000)) 1001) \<and>
   transact (\<lambda>s. juby_deposit s 1001 0 5 1000) (saving_world 1000) =
     (Inl (Revert ''Existing deposit found. Withdraw first.''), saving_world 1000) \<and>
   \<not> exists (deposits (ledger (saving_world 1000)) 1002) \<and>
   transact (\<lambda>s. juby_withdraw s 1002 360) (saving_world 1000) =
     (Inl (Revert ''No deposit found''), saving_world 1000) \<and>
   juby_deposit deployed_world 1001 0 1000000000 1000 = Inr (1000000000, saving_world 1000) \<and>
   \<not> exists (deposits (ledger deployed_world) 1001) \<and>
   (\<exists>w'. juby_withdraw (saving_world 1000) 1001 360 = Inr (1000000285, w') \<and>
      \<not> exists (deposits (ledger w') 1001)) \<and>
   (\<exists>w'. updateTreasury (saving_world 1000) 5005 2003 = Inr ((), w') \<and>
      deposits (ledger w') = deposits (ledger (saving_world 1000))) \<and>
   (\<exists>w'. transferOwnership (saving_world 1000) 5005 5006 = Inr ((), w') \<and>
      deposits (ledger w') = deposits (ledger (saving_world 1000)))"
proof -
  have a: "exists (deposits (ledger (saving_world 1000)) 1001)"
    and n: "\<not> exists (deposits (ledger (saving_world 1000)) 1002)"
    and o: "owner (ledger (saving_world 1000)) = 5005"
    by (simp_all add: saving_world_def deployed_world_def fresh_vault_def juby_defs arith_defs
        vault_defs token_defs)
  have dep: "juby_deposit deployed_world 1001 0 1000000000 1000 =
      Inr (1000000000, saving_world 1000)"
    by (rule saving_world_reached) simp
  have "\<exists>w'. juby_withdraw (saving_world 1000) 1001 360 = Inr (1000000285, w')"
    by (simp add: saving_world_def deployed_world_def fresh_vault_def juby_defs arith_defs
        vault_defs token_defs)
  then obtain w1 where w1: "juby_withdraw (saving_world 1000) 1001 360 = Inr (1000000285, w1)" ..
  obtain w2 where w2: "updateTreasury (saving_world 1000) 5005 2003 = Inr ((), w2)"
    by (simp add: updateTreasury_def o Let_def)
  obtain w3 where w3: "transferOwnership (saving_world 1000) 5005 5006 = Inr ((), w3)"
    by (simp add: transferOwnership_def o)
  note m1 = deposit_state_machine [of "saving_world 1000" 1001 0 5 1000 0]
  note m2 = deposit_state_machine [of "saving_world 1000" 1002 360 5 1000 0]
  note m3 = deposit_state_machine [of deployed_world 1001 0 1000000000 1000 0]
  note m4 = deposit_state_machine [of "saving_world 1000" 1001 360 5 1000 0]
  note m5 = deposit_state_machine [of "saving_world 1000" 5005 0 5 1000 2003]
  note m6 = deposit_state_machine [of "saving_world 1000" 5005 0 5 1000 5006]
  have c1: "transact (\<lambda>s. juby_deposit s 1001 0 5 1000) (saving_world 1000) =
     (Inl (Revert ''Existing deposit found. Withdraw first.''), saving_world 1000)"
    using m1 a by simp
  have c2: "transact (\<lambda>s. juby_withdraw s 1002 360) (saving_world 1000) =
     (Inl (Revert ''No deposit found''), saving_world 1000)"
    using m2 n by blast
  have c3: "\<not> exists (deposits (ledger deployed_world) 1001)"
    using m3 dep by blast
  have c4: "\<not> exists (deposits (ledger w1) 1001)"
    using m4 w1 by blast
  have c5: "deposits (ledger w2) = deposits (ledger (saving_world 1000))"
    using m5 w2 by blast
  have c6: "deposits (ledger w3) = deposits (ledger (saving_world 1000))"
    using m6 w3 by blast
  from a n dep w1 w2 w3 c1 c2 c3 c4 c5 c6 show ?thesis by blast
qed

end
